theory Spec2Isabelle
  imports Complex_Main
begin

section \<open>Python values and data frames\<close>

text \<open>
  A Python float is a finite number, an infinity or the not-a-number; a finite float is
  given by the real number it stands for (not every real number is a float, and the sign
  of zero is not kept).
\<close>

datatype flt = Fin real | PInf | NInf | NaN

text \<open>
  What numpy and pandas compute with floats is not code of this repository, and it
  rounds: the sum of a column of numbers (\<open>Series.sum\<close>, whose order of additions numpy
  chooses), the product and the quotient of two floats, the float an integer is converted
  to. These four operations are parameters of the model. Every function below that
  computes with floats takes them as its first argument, and what is proved of the code is
  proved for every such arithmetic.
\<close>

record arith =
  np_sum :: "flt list \<Rightarrow> flt"
  np_mul :: "flt \<Rightarrow> flt \<Rightarrow> flt"
  np_div :: "flt \<Rightarrow> flt \<Rightarrow> flt"
  np_float :: "int \<Rightarrow> flt"

text \<open>
  The arithmetic that does not round, for the sample projects below: their numbers are
  integers and fractions with a power of two as denominator, of a few digits, and on
  these floating-point addition, multiplication and division are exact (numpy divides by
  zero without raising).
\<close>

fun fadd :: "flt \<Rightarrow> flt \<Rightarrow> flt" where
  "fadd (Fin a) (Fin b) = Fin (a + b)"
| "fadd NaN _ = NaN"
| "fadd _ NaN = NaN"
| "fadd PInf NInf = NaN"
| "fadd NInf PInf = NaN"
| "fadd PInf _ = PInf"
| "fadd _ PInf = PInf"
| "fadd NInf _ = NInf"
| "fadd _ NInf = NInf"

fun fsgn :: "flt \<Rightarrow> int" where
  "fsgn (Fin a) = (if a = 0 then 0 else if 0 < a then 1 else -1)"
| "fsgn PInf = 1"
| "fsgn NInf = -1"
| "fsgn NaN = 0"

fun fmul :: "flt \<Rightarrow> flt \<Rightarrow> flt" where
  "fmul (Fin a) (Fin b) = Fin (a * b)"
| "fmul NaN _ = NaN"
| "fmul _ NaN = NaN"
| "fmul x y =
     (if fsgn x * fsgn y = 0 then NaN else if 0 < fsgn x * fsgn y then PInf else NInf)"

fun fdiv :: "flt \<Rightarrow> flt \<Rightarrow> flt" where
  "fdiv NaN _ = NaN"
| "fdiv _ NaN = NaN"
| "fdiv (Fin a) (Fin b) =
     (if b = 0 then (if a = 0 then NaN else if 0 < a then PInf else NInf)
      else Fin (a / b))"
| "fdiv (Fin a) _ = Fin 0"
| "fdiv PInf (Fin b) = (if b < 0 then NInf else PInf)"
| "fdiv NInf (Fin b) = (if b < 0 then PInf else NInf)"
| "fdiv _ _ = NaN"

definition exact :: arith where
  "exact = \<lparr>np_sum = foldl fadd (Fin 0), np_mul = fmul, np_div = fdiv,
            np_float = (\<lambda>i. Fin (of_int i))\<rparr>"

text \<open>
  \<open>x >= 0\<close> and \<open>x == y\<close> on floats compare the numbers as they are: every comparison with
  the not-a-number is false.
\<close>

fun fge0 :: "flt \<Rightarrow> bool" where
  "fge0 (Fin a) = (0 \<le> a)"
| "fge0 PInf = True"
| "fge0 NInf = False"
| "fge0 NaN = False"

fun feq :: "flt \<Rightarrow> flt \<Rightarrow> bool" where
  "feq NaN _ = False"
| "feq _ NaN = False"
| "feq x y = (x = y)"

text \<open>
  The scalar values a cell of a table or an attribute of a project holds: \<open>None\<close>, a
  string, an integer, a float, a timestamp (counted in days).
\<close>

datatype pyval = PNone | PStr string | PInt int | PFloat flt | PDate int

text \<open>
  A pandas DataFrame: the column labels in order, the rows in order, each row giving the
  cell of every column, and the labels of the columns whose dtype is category (\<open>cats\<close>).
  A cell a row does not give reads as the missing value.
\<close>

type_synonym row = "(string \<times> pyval) list"

record frame =
  columns :: "string list"
  rows :: "row list"
  cats :: "string list"

definition cell :: "row \<Rightarrow> string \<Rightarrow> pyval" where
  "cell r c = (case map_of r c of None \<Rightarrow> PNone | Some v \<Rightarrow> v)"

text \<open>The objects a caller passes: a scalar or a DataFrame.\<close>

datatype pyobj = Scalar pyval | Frame frame

section \<open>Errors\<close>

text \<open>
  \<open>vt.Invalid\<close> with what its message reports, and the Python exceptions the code can
  raise besides; a ValueError with what it is about (\<open>NeedsTimesheet\<close> is the code's
  \<open>ValueError('The project needs a timesheet for this operation')\<close>).
\<close>

datatype invalid_reason =
    ExpectedStr
  | OutOfRange
  | ExpectedDataFrame
  | EmptyFrame
  | BadHeader "string set"
  | NaNsFound
  | NonNumerical pyval
  | BudgetMismatch flt pyobj
  | UnknownTasks "pyval set"
  | UnknownWorkers "pyval set"

datatype value_error = NeedsTimesheet | AmbiguousTruth | LengthMismatch

datatype error =
    Invalid invalid_reason
  | AttributeError
  | NameError
  | TypeError
  | KeyError string
  | IndexError
  | ValueError value_error
  | MergeError

section \<open>Series and frame operations\<close>

text \<open>\<open>f[c]\<close>: the column's cells in row order; KeyError when \<open>f\<close> has no such column.\<close>

definition col :: "frame \<Rightarrow> string \<Rightarrow> error + pyval list" where
  "col f c = (if c \<in> set (columns f) then Inr (map (\<lambda>r. cell r c) (rows f))
              else Inl (KeyError c))"

text \<open>\<open>obj[c]\<close> on any object: scalars are not subscriptable by a label.\<close>

fun getitem :: "pyobj \<Rightarrow> string \<Rightarrow> error + pyval list" where
  "getitem (Frame f) c = col f c"
| "getitem (Scalar _) c = Inl TypeError"

text \<open>\<open>isnull\<close>: \<open>None\<close> and the not-a-number are the missing values.\<close>

fun is_null :: "pyval \<Rightarrow> bool" where
  "is_null PNone = True"
| "is_null (PFloat NaN) = True"
| "is_null _ = False"

fun is_float :: "pyval \<Rightarrow> bool" where
  "is_float (PFloat _) = True"
| "is_float _ = False"

fun is_str :: "pyobj \<Rightarrow> bool" where
  "is_str (Scalar (PStr _)) = True"
| "is_str _ = False"

fun the_flt :: "pyval \<Rightarrow> flt" where
  "the_flt (PFloat x) = x"
| "the_flt _ = NaN"

text \<open>
  \<open>series.sum()\<close> of a column of floats. pandas skips the missing values (\<open>skipna\<close> is
  true by default), so the not-a-number is left out of what is added up.
\<close>

definition skipna :: "pyval list \<Rightarrow> flt list" where
  "skipna xs = filter (\<lambda>x. x \<noteq> NaN) (map the_flt xs)"

definition series_sum :: "arith \<Rightarrow> pyval list \<Rightarrow> error + pyval" where
  "series_sum A xs =
     (if list_all is_float xs then Inr (PFloat (np_sum A (skipna xs))) else Inl TypeError)"

text \<open>\<open>obj.copy()\<close>: a DataFrame copies itself; the scalars have no such attribute.\<close>

fun py_copy :: "pyobj \<Rightarrow> error + pyobj" where
  "py_copy (Frame f) = Inr (Frame f)"
| "py_copy (Scalar _) = Inl AttributeError"

section \<open>Format checkers (project.py)\<close>

text \<open>\<open>check_str = vt.Schema(str)\<close>: the value is an instance of \<open>str\<close>.\<close>

fun check_str :: "pyobj \<Rightarrow> error + pyobj" where
  "check_str (Scalar (PStr s)) = Inr (Scalar (PStr s))"
| "check_str _ = Inl (Invalid ExpectedStr)"

text \<open>
  \<open>check_pos = vt.Schema(vt.Range(min=0))\<close>: fails when \<open>not v >= 0\<close>; a value that
  cannot be compared with 0 is invalid as well.
\<close>

fun check_pos :: "pyobj \<Rightarrow> error + pyobj" where
  "check_pos (Scalar (PInt i)) =
     (if 0 \<le> i then Inr (Scalar (PInt i)) else Inl (Invalid OutOfRange))"
| "check_pos (Scalar (PFloat x)) =
     (if fge0 x then Inr (Scalar (PFloat x)) else Inl (Invalid OutOfRange))"
| "check_pos _ = Inl (Invalid OutOfRange)"

fun check_df_instance :: "pyobj \<Rightarrow> error + frame" where
  "check_df_instance (Frame f) = Inr f"
| "check_df_instance (Scalar _) = Inl (Invalid ExpectedDataFrame)"

definition df_nonempty :: "frame \<Rightarrow> error + frame" where
  "df_nonempty f = (if rows f = [] then Inl (Invalid EmptyFrame) else Inr f)"

definition check_df_header :: "frame \<Rightarrow> string list \<Rightarrow> error + frame" where
  "check_df_header f expect_cols =
     (if set (columns f) \<noteq> set expect_cols then Inl (Invalid (BadHeader (set expect_cols)))
      else Inr f)"

definition df_no_nans :: "frame \<Rightarrow> error + frame" where
  "df_no_nans f =
     (if list_ex (\<lambda>c. list_ex (\<lambda>r. is_null (cell r c)) (rows f)) (columns f)
      then Inl (Invalid NaNsFound) else Inr f)"

definition check_df :: "pyobj \<Rightarrow> string list \<Rightarrow> error + frame" where
  "check_df v expect_cols =
     (case check_df_instance v of Inl e \<Rightarrow> Inl e
      | Inr f \<Rightarrow>
          (case check_df_header f expect_cols of Inl e \<Rightarrow> Inl e
           | Inr f1 \<Rightarrow> df_no_nans f1))"

text \<open>
  \<open>b != budget\<close> with \<open>b\<close> a float: numbers compare by their numeric worth (an integer as
  the float it is converted to), a float never equals \<open>None\<close>, a string or a timestamp, and
  the truth of a comparison with a DataFrame is ambiguous (ValueError).
\<close>

fun py_ne :: "arith \<Rightarrow> flt \<Rightarrow> pyobj \<Rightarrow> error + bool" where
  "py_ne A b (Scalar (PFloat y)) = Inr (\<not> feq b y)"
| "py_ne A b (Scalar (PInt i)) = Inr (\<not> feq b (np_float A i))"
| "py_ne A b (Scalar _) = Inr True"
| "py_ne A b (Frame _) = Inl (ValueError AmbiguousTruth)"

definition check_tasks_df :: "arith \<Rightarrow> pyobj \<Rightarrow> pyobj \<Rightarrow> error + frame" where
  "check_tasks_df A v budget0 =
     (case check_df v [''task'', ''budget''] of Inl e \<Rightarrow> Inl e
      | Inr f \<Rightarrow>
          (case col f ''budget'' of Inl e \<Rightarrow> Inl e
           | Inr vs \<Rightarrow>
               (case find (\<lambda>v. \<not> is_float v) vs of
                  Some v \<Rightarrow> Inl (Invalid (NonNumerical v))
                | None \<Rightarrow>
                    (let b = np_sum A (skipna vs) in
                     case py_ne A b budget0 of Inl e \<Rightarrow> Inl e
                     | Inr True \<Rightarrow> Inl (Invalid (BudgetMismatch b budget0))
                     | Inr False \<Rightarrow> Inr f))))"

definition check_workers_df :: "pyobj \<Rightarrow> error + frame" where
  "check_workers_df v =
     (case check_df v [''worker'', ''rate''] of Inl e \<Rightarrow> Inl e
      | Inr f \<Rightarrow>
          (case col f ''rate'' of Inl e \<Rightarrow> Inl e
           | Inr vs \<Rightarrow>
               (case find (\<lambda>v. \<not> is_float v) vs of
                  Some v \<Rightarrow> Inl (Invalid (NonNumerical v))
                | None \<Rightarrow> Inr f)))"

text \<open>
  \<open>check_timesheet_df\<close> copies its argument before it asks whether it is \<open>None\<close>, and its
  report of a non-float duration formats the name \<open>name\<close>, which nothing binds.
\<close>

definition check_timesheet_df :: "pyobj \<Rightarrow> pyobj \<Rightarrow> pyobj \<Rightarrow> error + frame option" where
  "check_timesheet_df timesheet tasks workers =
     (case py_copy timesheet of Inl e \<Rightarrow> Inl e
      | Inr f0 \<Rightarrow>
          if f0 = Scalar PNone then Inr None
          else
            (case check_df f0 [''date'', ''task'', ''worker'', ''duration''] of Inl e \<Rightarrow> Inl e
             | Inr f \<Rightarrow>
                 (case col f ''duration'' of Inl e \<Rightarrow> Inl e
                  | Inr ds \<Rightarrow>
                      (case find (\<lambda>v. \<not> is_float v) ds of
                         Some v \<Rightarrow> Inl NameError
                       | None \<Rightarrow>
                           (case col f ''task'' of Inl e \<Rightarrow> Inl e
                            | Inr ft \<Rightarrow>
                           (case getitem tasks ''task'' of Inl e \<Rightarrow> Inl e
                            | Inr tt \<Rightarrow>
                                if set ft - set tt \<noteq> {}
                                then Inl (Invalid (UnknownTasks (set ft - set tt)))
                                else
                                  (case col f ''worker'' of Inl e \<Rightarrow> Inl e
                                   | Inr fw \<Rightarrow>
                                  (case getitem workers ''worker'' of Inl e \<Rightarrow> Inl e
                                   | Inr ww \<Rightarrow>
                                       if set fw - set ww \<noteq> {}
                                       then Inl (Invalid (UnknownWorkers (set fw - set ww)))
                                       else Inr (Some f)))))))))"

section \<open>The Project class (project.py)\<close>

record project =
  name :: pyobj
  description :: pyobj
  client :: pyobj
  budget :: pyobj
  currency :: pyobj
  tasks_df :: frame
  workers_df :: frame
  timesheet_df :: "frame option"

text \<open>\<open>Project.__init__\<close>: the eight checks in the order of the source.\<close>

definition Project_init ::
  "arith \<Rightarrow> pyobj \<Rightarrow> pyobj \<Rightarrow> pyobj \<Rightarrow> pyobj \<Rightarrow> pyobj \<Rightarrow> pyobj \<Rightarrow> pyobj \<Rightarrow> pyobj
     \<Rightarrow> error + project"
where
  "Project_init A nm ds cl bu cu ta wo ti =
     (case check_str nm of Inl e \<Rightarrow> Inl e | Inr nm1 \<Rightarrow>
     (case check_str ds of Inl e \<Rightarrow> Inl e | Inr ds1 \<Rightarrow>
     (case check_str cl of Inl e \<Rightarrow> Inl e | Inr cl1 \<Rightarrow>
     (case check_pos bu of Inl e \<Rightarrow> Inl e | Inr bu1 \<Rightarrow>
     (case check_str cu of Inl e \<Rightarrow> Inl e | Inr cu1 \<Rightarrow>
     (case check_tasks_df A ta bu of Inl e \<Rightarrow> Inl e | Inr ta1 \<Rightarrow>
     (case check_workers_df wo of Inl e \<Rightarrow> Inl e | Inr wo1 \<Rightarrow>
     (case check_timesheet_df ti ta wo of Inl e \<Rightarrow> Inl e | Inr ti1 \<Rightarrow>
        Inr \<lparr>name = nm1, description = ds1, client = cl1, budget = bu1, currency = cu1,
             tasks_df = ta1, workers_df = wo1, timesheet_df = ti1\<rparr>))))))))"

text \<open>
  A call \<open>Project(...)\<close> with positional arguments: seven are required, the eighth
  (\<open>timesheet_df\<close>) defaults to \<open>None\<close>; any other number of arguments is a TypeError.
\<close>

fun Project_new :: "arith \<Rightarrow> pyobj list \<Rightarrow> error + project" where
  "Project_new A [nm, ds, cl, bu, cu, ta, wo] =
     Project_init A nm ds cl bu cu ta wo (Scalar PNone)"
| "Project_new A [nm, ds, cl, bu, cu, ta, wo, ti] = Project_init A nm ds cl bu cu ta wo ti"
| "Project_new A _ = Inl TypeError"

text \<open>\<open>Project.copy\<close>: a new project made with no arguments, then every attribute set.\<close>

definition copy :: "arith \<Rightarrow> project \<Rightarrow> error + project" where
  "copy A self =
     (case Project_new A [] of Inl e \<Rightarrow> Inl e
      | Inr other \<Rightarrow>
          Inr (other\<lparr>name := name self, description := description self,
                     client := client self, budget := budget self,
                     currency := currency self, tasks_df := tasks_df self,
                     workers_df := workers_df self, timesheet_df := timesheet_df self\<rparr>))"

section \<open>Cost join and aggregation (main.py)\<close>

text \<open>A row built along a list of column labels from a reading of its cells.\<close>

definition mk_row :: "string list \<Rightarrow> (string \<Rightarrow> pyval) \<Rightarrow> row" where
  "mk_row cs g = map (\<lambda>c. (c, g c)) cs"

text \<open>
  A list put in groups by a key: the keys in the order in which they first appear, and
  under one key the elements in the order they had.
\<close>

fun regroup :: "('a \<Rightarrow> 'k) \<Rightarrow> 'a list \<Rightarrow> 'a list" where
  "regroup k [] = []"
| "regroup k (x # xs) =
     x # filter (\<lambda>y. k y = k x) xs @ regroup k (filter (\<lambda>y. k y \<noteq> k x) xs)"

text \<open>
  \<open>left.merge(right)\<close> of pandas, in the versions that have \<open>pd.TimeGrouper\<close>: an inner
  join on the column labels the two frames share (MergeError when they share none). The
  join does not keep the order of the left rows: its rows come grouped by the join key,
  the keys in the order in which they first appear in the left frame, under one key the
  left rows in their order, each paired with every right row of this key in the right
  frame's order. The result has the left columns, then the right columns that are not
  shared, and no column of category dtype (the code notes that category dtypes are not
  preserved, and recreates them).
\<close>

definition merge :: "frame \<Rightarrow> frame \<Rightarrow> error + frame" where
  "merge L R =
     (let on = filter (\<lambda>c. c \<in> set (columns R)) (columns L);
          cs = columns L @ filter (\<lambda>c. c \<notin> set on) (columns R)
      in if on = [] then Inl MergeError
         else Inr \<lparr>columns = cs,
                rows = concat (map (\<lambda>l.
                         map (\<lambda>r. mk_row cs (\<lambda>c. if c \<in> set (columns L) then cell l c else cell r c))
                           (filter (\<lambda>r. list_all (\<lambda>c. cell l c = cell r c) on) (rows R)))
                       (regroup (\<lambda>l. map (cell l) on) (rows L))),
                cats = []\<rparr>)"

text \<open>
  \<open>f[c] = f[c].astype('category')\<close>: the column must exist; its cells stay what they are,
  and its dtype is category from now on. The categories of the column are the values it
  holds at this point, sorted; the code does not change the cells of the column between
  this cast and the grouping in \<open>summarize\<close>, where the categories are read off the
  column (\<open>categories\<close>, below).
\<close>

definition astype_category :: "frame \<Rightarrow> string \<Rightarrow> error + frame" where
  "astype_category f c =
     (if c \<in> set (columns f) then Inr (f\<lparr>cats := c # cats f\<rparr>) else Inl (KeyError c))"

text \<open>\<open>f.rename(columns={a: b})\<close>; a label that is not there is ignored.\<close>

definition rename_col :: "frame \<Rightarrow> string \<Rightarrow> string \<Rightarrow> frame" where
  "rename_col f a b =
     \<lparr>columns = map (\<lambda>c. if c = a then b else c) (columns f),
      rows = map (\<lambda>r. map (\<lambda>c. (if c = a then b else c, cell r c)) (columns f)) (rows f),
      cats = map (\<lambda>c. if c = a then b else c) (cats f)\<rparr>"

text \<open>
  \<open>f[c] = series\<close>: the column is replaced where it stands, or added last; the series
  has one cell for each row (ValueError otherwise). The series the code assigns are
  computed numbers, so the column is not of category dtype.
\<close>

definition set_col :: "frame \<Rightarrow> string \<Rightarrow> pyval list \<Rightarrow> error + frame" where
  "set_col f c vs =
     (let cs = (if c \<in> set (columns f) then columns f else columns f @ [c])
      in if length vs \<noteq> length (rows f) then Inl (ValueError LengthMismatch)
         else Inr \<lparr>columns = cs,
                rows = map (\<lambda>(r, v). mk_row cs (\<lambda>k. if k = c then v else cell r k))
                         (zip (rows f) vs),
                cats = removeAll c (cats f)\<rparr>)"

text \<open>\<open>f.drop([c], axis=1)\<close>: KeyError when the label is not there.\<close>

definition drop_col :: "frame \<Rightarrow> string \<Rightarrow> error + frame" where
  "drop_col f c =
     (if c \<notin> set (columns f) then Inl (KeyError c)
      else Inr \<lparr>columns = removeAll c (columns f),
             rows = map (\<lambda>r. mk_row (removeAll c (columns f)) (cell r)) (rows f),
             cats = removeAll c (cats f)\<rparr>)"

text \<open>
  Arithmetic on cells. A validated project has floats in every column the code computes
  with; a cell of another kind is modelled as a TypeError.
\<close>

fun num_mul :: "arith \<Rightarrow> pyval \<Rightarrow> pyval \<Rightarrow> error + pyval" where
  "num_mul A (PFloat x) (PFloat y) = Inr (PFloat (np_mul A x y))"
| "num_mul A _ _ = Inl TypeError"

fun num_div :: "arith \<Rightarrow> pyval \<Rightarrow> pyval \<Rightarrow> error + pyval" where
  "num_div A (PFloat x) (PFloat y) = Inr (PFloat (np_div A x y))"
| "num_div A _ _ = Inl TypeError"

text \<open>The number a scalar divisor stands for: an integer divides as the float it converts to.\<close>

fun to_num :: "arith \<Rightarrow> pyobj \<Rightarrow> error + pyval" where
  "to_num A (Scalar (PFloat y)) = Inr (PFloat y)"
| "to_num A (Scalar (PInt i)) = Inr (PFloat (np_float A i))"
| "to_num A _ = Inl TypeError"

fun mapE :: "('a \<Rightarrow> error + 'b) \<Rightarrow> 'a list \<Rightarrow> error + 'b list" where
  "mapE g [] = Inr []"
| "mapE g (x # xs) =
     (case g x of Inl e \<Rightarrow> Inl e
      | Inr y \<Rightarrow> (case mapE g xs of Inl e \<Rightarrow> Inl e | Inr ys \<Rightarrow> Inr (y # ys)))"

definition series_mul :: "arith \<Rightarrow> pyval list \<Rightarrow> pyval list \<Rightarrow> error + pyval list" where
  "series_mul A xs ys = mapE (\<lambda>(x, y). num_mul A x y) (zip xs ys)"

definition series_div :: "arith \<Rightarrow> pyval list \<Rightarrow> pyval list \<Rightarrow> error + pyval list" where
  "series_div A xs ys = mapE (\<lambda>(x, y). num_div A x y) (zip xs ys)"

definition series_div_scalar :: "arith \<Rightarrow> pyval list \<Rightarrow> pyobj \<Rightarrow> error + pyval list" where
  "series_div_scalar A xs d =
     (case to_num A d of Inl e \<Rightarrow> Inl e | Inr y \<Rightarrow> mapE (\<lambda>x. num_div A x y) xs)"

text \<open>\<open>series.iat[0]\<close>: IndexError on an empty series.\<close>

fun iat0 :: "pyval list \<Rightarrow> error + pyval" where
  "iat0 [] = Inl IndexError"
| "iat0 (x # xs) = Inr x"

definition compute_costs :: "arith \<Rightarrow> project \<Rightarrow> error + frame" where
  "compute_costs A p =
     (case timesheet_df p of None \<Rightarrow> Inl (ValueError NeedsTimesheet)
      | Some ts \<Rightarrow>
     (case merge ts (tasks_df p) of Inl e \<Rightarrow> Inl e | Inr f1 \<Rightarrow>
     (case merge f1 (workers_df p) of Inl e \<Rightarrow> Inl e | Inr f2 \<Rightarrow>
     (case astype_category f2 ''task'' of Inl e \<Rightarrow> Inl e | Inr f3 \<Rightarrow>
     (case astype_category f3 ''worker'' of Inl e \<Rightarrow> Inl e | Inr f4 \<Rightarrow>
     (let f5 = rename_col f4 ''budget'' ''task_budget'' in
     (case col f5 ''duration'' of Inl e \<Rightarrow> Inl e | Inr du \<Rightarrow>
     (case col f5 ''rate'' of Inl e \<Rightarrow> Inl e | Inr ra \<Rightarrow>
     (case series_mul A du ra of Inl e \<Rightarrow> Inl e | Inr co \<Rightarrow>
     (case set_col f5 ''cost'' co of Inl e \<Rightarrow> Inl e | Inr f6 \<Rightarrow>
     (case col f6 ''cost'' of Inl e \<Rightarrow> Inl e | Inr c1 \<Rightarrow>
     (case col f6 ''task_budget'' of Inl e \<Rightarrow> Inl e | Inr tb \<Rightarrow>
     (case series_div A c1 tb of Inl e \<Rightarrow> Inl e | Inr r1 \<Rightarrow>
     (case set_col f6 ''cost/task_budget'' r1 of Inl e \<Rightarrow> Inl e | Inr f7 \<Rightarrow>
     (case col f7 ''cost'' of Inl e \<Rightarrow> Inl e | Inr c2 \<Rightarrow>
     (case series_div_scalar A c2 (budget p) of Inl e \<Rightarrow> Inl e | Inr r2 \<Rightarrow>
        set_col f7 ''cost/project_budget'' r2))))))))))))))))"

text \<open>\<open>my_agg\<close>, the function \<open>summarize\<close> applies to each group of rows.\<close>

definition my_agg :: "arith \<Rightarrow> frame \<Rightarrow> error + row" where
  "my_agg A grp =
     (case col grp ''duration'' of Inl e \<Rightarrow> Inl e | Inr du \<Rightarrow>
     (case series_sum A du of Inl e \<Rightarrow> Inl e | Inr d \<Rightarrow>
     (case col grp ''rate'' of Inl e \<Rightarrow> Inl e | Inr ra \<Rightarrow>
     (case iat0 ra of Inl e \<Rightarrow> Inl e | Inr r \<Rightarrow>
     (case col grp ''cost'' of Inl e \<Rightarrow> Inl e | Inr co \<Rightarrow>
     (case series_sum A co of Inl e \<Rightarrow> Inl e | Inr c \<Rightarrow>
     (case col grp ''task_budget'' of Inl e \<Rightarrow> Inl e | Inr tb \<Rightarrow>
     (case iat0 tb of Inl e \<Rightarrow> Inl e | Inr t \<Rightarrow>
        Inr [(''duration'', d), (''rate'', r), (''cost'', c), (''task_budget'', t)]))))))))"

text \<open>
  The grouping keys. \<open>pd.TimeGrouper(freq, label='left')\<close> is modelled by the function
  \<open>freq\<close> denotes: from a day to the first day of its period. The key of a row is its
  period (when a frequency is given), its task (when \<open>by_task\<close>) and its worker (when
  \<open>by_worker\<close>), in this order; the key columns are named the same way.
\<close>

fun is_date :: "pyval \<Rightarrow> bool" where
  "is_date (PDate _) = True"
| "is_date _ = False"

fun the_day :: "pyval \<Rightarrow> int" where
  "the_day (PDate d) = d"
| "the_day _ = 0"

fun bucket :: "(int \<Rightarrow> int) \<Rightarrow> pyval \<Rightarrow> pyval" where
  "bucket b (PDate d) = PDate (b d)"
| "bucket b v = v"

definition key_cols :: "(int \<Rightarrow> int) option \<Rightarrow> bool \<Rightarrow> bool \<Rightarrow> string list" where
  "key_cols freq by_task by_worker =
     (case freq of None \<Rightarrow> [] | Some b \<Rightarrow> [''date''])
     @ (if by_task then [''task''] else []) @ (if by_worker then [''worker''] else [])"

definition group_key :: "(int \<Rightarrow> int) option \<Rightarrow> bool \<Rightarrow> bool \<Rightarrow> row \<Rightarrow> pyval list" where
  "group_key freq by_task by_worker r =
     (case freq of None \<Rightarrow> [] | Some b \<Rightarrow> [bucket b (cell r ''date'')])
     @ (if by_task then [cell r ''task''] else [])
     @ (if by_worker then [cell r ''worker''] else [])"

text \<open>
  The order values are sorted in: numbers by size, timestamps by day, strings by their
  characters; key tuples lexicographically. The categories of a column are its distinct
  values in this order.
\<close>

fun ord_key :: "pyval \<Rightarrow> nat \<times> real \<times> string" where
  "ord_key PNone = (0, 0, [])"
| "ord_key (PInt i) = (1, of_int i, [])"
| "ord_key (PFloat (Fin x)) = (1, x, [])"
| "ord_key (PFloat _) = (2, 0, [])"
| "ord_key (PDate d) = (3, of_int d, [])"
| "ord_key (PStr s) = (4, 0, s)"

fun str_le :: "string \<Rightarrow> string \<Rightarrow> bool" where
  "str_le [] t = True"
| "str_le (c # s) [] = False"
| "str_le (c # s) (d # t) =
     ((of_char c :: nat) < of_char d \<or> (c = d \<and> str_le s t))"

fun ord_le :: "nat \<times> real \<times> string \<Rightarrow> nat \<times> real \<times> string \<Rightarrow> bool" where
  "ord_le (a, x, s) (b, y, t) = (a < b \<or> (a = b \<and> (x < y \<or> (x = y \<and> str_le s t))))"

fun insert_val :: "pyval \<Rightarrow> pyval list \<Rightarrow> pyval list" where
  "insert_val v [] = [v]"
| "insert_val v (x # xs) =
     (if ord_le (ord_key v) (ord_key x) then v # x # xs else x # insert_val v xs)"

definition categories :: "pyval list \<Rightarrow> pyval list" where
  "categories vs = foldr insert_val (remdups vs) []"

fun keys_le :: "pyval list \<Rightarrow> pyval list \<Rightarrow> bool" where
  "keys_le [] ys = True"
| "keys_le (x # xs) [] = False"
| "keys_le (x # xs) (y # ys) =
     (if ord_key x = ord_key y then keys_le xs ys else ord_le (ord_key x) (ord_key y))"

fun insert_key :: "pyval list \<Rightarrow> pyval list list \<Rightarrow> pyval list list" where
  "insert_key k [] = [k]"
| "insert_key k (x # xs) = (if keys_le k x then k # x # xs else x # insert_key k xs)"

definition sort_keys :: "pyval list list \<Rightarrow> pyval list list" where
  "sort_keys ks = foldr insert_key ks []"

text \<open>
  The periods of a time grouper: every period from the one of the first day to the one of
  the last day, in order, also those in which no row falls.
\<close>

definition periods :: "(int \<Rightarrow> int) \<Rightarrow> pyval list \<Rightarrow> pyval list" where
  "periods b ds =
     remdups (map (\<lambda>d. PDate (b d)) [Min (set (map the_day ds)) .. Max (set (map the_day ds))])"

text \<open>The values each key column can take, in the order of the key columns.\<close>

definition key_levels ::
  "(int \<Rightarrow> int) option \<Rightarrow> bool \<Rightarrow> bool \<Rightarrow> frame \<Rightarrow> pyval list list" where
  "key_levels freq by_task by_worker f =
     (case freq of None \<Rightarrow> [] | Some b \<Rightarrow> [periods b (map (\<lambda>r. cell r ''date'') (rows f))])
     @ (if by_task then [categories (map (\<lambda>r. cell r ''task'') (rows f))] else [])
     @ (if by_worker then [categories (map (\<lambda>r. cell r ''worker'') (rows f))] else [])"

text \<open>
  \<open>f.groupby(keys).apply(my_agg).reset_index()\<close> of pandas (in the versions that have
  \<open>pd.TimeGrouper\<close>). The result has the key columns, then the fields of the aggregate,
  and its rows are in sorted key order:

  \<^item> with one key column, there is one row for each of its values (the categories of the
    column, the periods of the time grouper), and the aggregate is applied to the rows of
    each value (in their order in \<open>f\<close>), also to a period in which no row falls, where
    \<open>my_agg\<close> raises IndexError;

  \<^item> with two or three key columns of which one is of category dtype, there is one row
    for each combination of the values of the key columns; the aggregate is applied to
    the rows of each combination that occurs among the rows, and a combination that does
    not occur gets the not-a-number in every field of the aggregate;

  \<^item> with two or three key columns none of which is of category dtype, there is one row
    for each combination that occurs among the rows.

  With no row in \<open>f\<close> nothing is aggregated, and the result is the empty frame with its
  index as only column. A key column keeps its dtype.
\<close>

definition nan_agg :: row where
  "nan_agg = [(''duration'', PFloat NaN), (''rate'', PFloat NaN), (''cost'', PFloat NaN),
              (''task_budget'', PFloat NaN)]"

definition group_keys ::
  "string list \<Rightarrow> (row \<Rightarrow> pyval list) \<Rightarrow> pyval list list \<Rightarrow> frame \<Rightarrow> pyval list list"
where
  "group_keys kcols kf levels f =
     (if 1 < length kcols \<and> \<not> list_ex (\<lambda>c. c \<in> set (cats f)) kcols
      then sort_keys (remdups (map kf (rows f)))
      else product_lists levels)"

definition groupby_apply ::
  "arith \<Rightarrow> string list \<Rightarrow> (row \<Rightarrow> pyval list) \<Rightarrow> pyval list list \<Rightarrow> frame \<Rightarrow> error + frame"
where
  "groupby_apply A kcols kf levels f =
     (if rows f = [] then Inr \<lparr>columns = [''index''], rows = [], cats = []\<rparr>
      else
        (case mapE (\<lambda>k. if filter (\<lambda>r. kf r = k) (rows f) = [] \<and> 1 < length kcols
                        then Inr (zip kcols k @ nan_agg)
                        else (case my_agg A (f\<lparr>rows := filter (\<lambda>r. kf r = k) (rows f)\<rparr>) of
                                Inl e \<Rightarrow> Inl e
                              | Inr a \<Rightarrow> Inr (zip kcols k @ a)))
                (group_keys kcols kf levels f) of
           Inl e \<Rightarrow> Inl e
         | Inr rs \<Rightarrow>
             Inr \<lparr>columns = kcols @ [''duration'', ''rate'', ''cost'', ''task_budget''],
                  rows = rs, cats = filter (\<lambda>c. c \<in> set (cats f)) kcols\<rparr>))"

text \<open>
  The body of \<open>summarize\<close> has two parts, kept apart here. The first groups the cost rows:
  by the key columns when there is one, into the single row \<open>my_agg\<close> makes of the whole
  frame when there is none; a frequency needs timestamps in the date column.
\<close>

definition aggregate ::
  "arith \<Rightarrow> bool \<Rightarrow> bool \<Rightarrow> (int \<Rightarrow> int) option \<Rightarrow> frame \<Rightarrow> error + frame" where
  "aggregate A by_task by_worker freq f =
     (case freq of
        None \<Rightarrow>
          if by_task \<or> by_worker
          then groupby_apply A (key_cols None by_task by_worker)
                 (group_key None by_task by_worker) (key_levels None by_task by_worker f) f
          else (case my_agg A f of Inl e \<Rightarrow> Inl e
                | Inr s \<Rightarrow> Inr \<lparr>columns = map fst s, rows = [s], cats = []\<rparr>)
      | Some b \<Rightarrow>
          (case col f ''date'' of Inl e \<Rightarrow> Inl e
           | Inr ds \<Rightarrow>
               if \<not> list_all is_date ds then Inl TypeError
               else groupby_apply A (key_cols freq by_task by_worker)
                      (group_key freq by_task by_worker)
                      (key_levels freq by_task by_worker f) f))"

text \<open>The second part appends or drops some columns.\<close>

definition shape_columns ::
  "arith \<Rightarrow> project \<Rightarrow> bool \<Rightarrow> bool \<Rightarrow> frame \<Rightarrow> error + frame" where
  "shape_columns A p by_task by_worker g =
     (case
        (if by_task then
           (case col g ''cost'' of Inl e \<Rightarrow> Inl e | Inr c1 \<Rightarrow>
           (case col g ''task_budget'' of Inl e \<Rightarrow> Inl e | Inr tb \<Rightarrow>
           (case series_div A c1 tb of Inl e \<Rightarrow> Inl e | Inr r1 \<Rightarrow>
           (case set_col g ''cost/task_budget'' r1 of Inl e \<Rightarrow> Inl e | Inr g1 \<Rightarrow>
           (case col g1 ''cost'' of Inl e \<Rightarrow> Inl e | Inr c2 \<Rightarrow>
           (case series_div_scalar A c2 (budget p) of Inl e \<Rightarrow> Inl e | Inr r2 \<Rightarrow>
              set_col g1 ''cost/project_budget'' r2))))))
         else
           (case drop_col g ''task_budget'' of Inl e \<Rightarrow> Inl e | Inr g1 \<Rightarrow>
           (case col g1 ''cost'' of Inl e \<Rightarrow> Inl e | Inr c2 \<Rightarrow>
           (case series_div_scalar A c2 (budget p) of Inl e \<Rightarrow> Inl e | Inr r2 \<Rightarrow>
              set_col g1 ''cost/project_budget'' r2))))
      of Inl e \<Rightarrow> Inl e
      | Inr g2 \<Rightarrow> if \<not> by_worker then drop_col g2 ''rate'' else Inr g2)"

definition summarize ::
  "arith \<Rightarrow> project \<Rightarrow> bool \<Rightarrow> bool \<Rightarrow> (int \<Rightarrow> int) option \<Rightarrow> error + frame" where
  "summarize A p by_task by_worker freq =
     (case timesheet_df p of None \<Rightarrow> Inl (ValueError NeedsTimesheet)
      | Some ts \<Rightarrow>
     (case compute_costs A p of Inl e \<Rightarrow> Inl e | Inr f \<Rightarrow>
     (case aggregate A by_task by_worker freq f of Inl e \<Rightarrow> Inl e
      | Inr g \<Rightarrow> shape_columns A p by_task by_worker g)))"

section \<open>A sample project\<close>

text \<open>
  Two tasks, two workers and three timesheet entries; the entries of the first task are
  the first and the third. Every number is an integer or has a power of two as
  denominator, so that no arithmetic on them rounds. The task and worker columns are of
  category dtype, as the reader of the repository makes them.
\<close>

definition ex_tasks :: frame where
  "ex_tasks = \<lparr>columns = [''task'', ''budget''],
     rows = [[(''task'', PStr ''Inception''), (''budget'', PFloat (Fin 2048))],
             [(''task'', PStr ''Solutions''), (''budget'', PFloat (Fin 2048))]],
     cats = [''task'']\<rparr>"

definition ex_workers :: frame where
  "ex_workers = \<lparr>columns = [''worker'', ''rate''],
     rows = [[(''worker'', PStr ''A''), (''rate'', PFloat (Fin 128))],
             [(''worker'', PStr ''B''), (''rate'', PFloat (Fin 64))]],
     cats = [''worker'']\<rparr>"

definition ex_timesheet :: frame where
  "ex_timesheet = \<lparr>columns = [''date'', ''task'', ''worker'', ''duration''],
     rows = [[(''date'', PDate 0), (''task'', PStr ''Inception''), (''worker'', PStr ''A''),
              (''duration'', PFloat (Fin 3))],
             [(''date'', PDate 1), (''task'', PStr ''Solutions''), (''worker'', PStr ''B''),
              (''duration'', PFloat (Fin 2))],
             [(''date'', PDate 9), (''task'', PStr ''Inception''), (''worker'', PStr ''B''),
              (''duration'', PFloat (Fin 1))]],
     cats = [''task'', ''worker'']\<rparr>"

definition ex_project :: project where
  "ex_project = \<lparr>name = Scalar (PStr ''Project A''), description = Scalar (PStr ''Pirates''),
     client = Scalar (PStr ''Marine Police''), budget = Scalar (PInt 4096),
     currency = Scalar (PStr ''HKD''), tasks_df = ex_tasks, workers_df = ex_workers,
     timesheet_df = Some ex_timesheet\<rparr>"

definition ex_noname_project :: project where
  "ex_noname_project = \<lparr>name = Scalar (PStr []), description = Scalar (PStr []),
     client = Scalar (PStr []), budget = Scalar (PInt 4096),
     currency = Scalar (PStr []), tasks_df = ex_tasks, workers_df = ex_workers,
     timesheet_df = Some ex_timesheet\<rparr>"

text \<open>A timesheet naming a task and a worker the project does not have.\<close>

definition ex_bad_timesheet :: frame where
  "ex_bad_timesheet = \<lparr>columns = [''date'', ''task'', ''worker'', ''duration''],
     rows = [[(''date'', PDate 0), (''task'', PStr ''Inception''), (''worker'', PStr ''A''),
              (''duration'', PFloat (Fin 3))],
             [(''date'', PDate 1), (''task'', PStr ''Painting''), (''worker'', PStr ''Z''),
              (''duration'', PFloat (Fin 2))]],
     cats = [''task'', ''worker'']\<rparr>"

text \<open>A timesheet whose duration is an integer, not a float.\<close>

definition ex_int_timesheet :: frame where
  "ex_int_timesheet = \<lparr>columns = [''date'', ''task'', ''worker'', ''duration''],
     rows = [[(''date'', PDate 0), (''task'', PStr ''Inception''), (''worker'', PStr ''A''),
              (''duration'', PInt 3)]],
     cats = [''task'', ''worker'']\<rparr>"

text \<open>
  A project whose tasks table names one task twice, with two budgets that sum to the
  budget of the project.
\<close>

definition ex_dup_tasks :: frame where
  "ex_dup_tasks = \<lparr>columns = [''task'', ''budget''],
     rows = [[(''task'', PStr ''Inception''), (''budget'', PFloat (Fin 1024))],
             [(''task'', PStr ''Inception''), (''budget'', PFloat (Fin 3072))]],
     cats = [''task'']\<rparr>"

definition ex_one_timesheet :: frame where
  "ex_one_timesheet = \<lparr>columns = [''date'', ''task'', ''worker'', ''duration''],
     rows = [[(''date'', PDate 0), (''task'', PStr ''Inception''), (''worker'', PStr ''A''),
              (''duration'', PFloat (Fin 3))]],
     cats = [''task'', ''worker'']\<rparr>"

definition ex_dup_project :: project where
  "ex_dup_project = \<lparr>name = Scalar (PStr ''Project A''), description = Scalar (PStr ''Pirates''),
     client = Scalar (PStr ''Marine Police''), budget = Scalar (PInt 4096),
     currency = Scalar (PStr ''HKD''), tasks_df = ex_dup_tasks, workers_df = ex_workers,
     timesheet_df = Some ex_one_timesheet\<rparr>"

text \<open>A project whose timesheet has the four columns and no entry.\<close>

definition ex_empty_timesheet :: frame where
  "ex_empty_timesheet = \<lparr>columns = [''date'', ''task'', ''worker'', ''duration''], rows = [],
     cats = [''task'', ''worker'']\<rparr>"

definition ex_empty_project :: project where
  "ex_empty_project = \<lparr>name = Scalar (PStr ''Project A''), description = Scalar (PStr ''Pirates''),
     client = Scalar (PStr ''Marine Police''), budget = Scalar (PInt 4096),
     currency = Scalar (PStr ''HKD''), tasks_df = ex_tasks, workers_df = ex_workers,
     timesheet_df = Some ex_empty_timesheet\<rparr>"

text \<open>A project whose timesheet leaves a week without an entry (the days 7 to 13).\<close>

definition ex_gap_timesheet :: frame where
  "ex_gap_timesheet = \<lparr>columns = [''date'', ''task'', ''worker'', ''duration''],
     rows = [[(''date'', PDate 0), (''task'', PStr ''Inception''), (''worker'', PStr ''A''),
              (''duration'', PFloat (Fin 3))],
             [(''date'', PDate 15), (''task'', PStr ''Solutions''), (''worker'', PStr ''B''),
              (''duration'', PFloat (Fin 2))]],
     cats = [''task'', ''worker'']\<rparr>"

definition ex_gap_project :: project where
  "ex_gap_project = \<lparr>name = Scalar (PStr ''Project A''), description = Scalar (PStr ''Pirates''),
     client = Scalar (PStr ''Marine Police''), budget = Scalar (PInt 4096),
     currency = Scalar (PStr ''HKD''), tasks_df = ex_tasks, workers_df = ex_workers,
     timesheet_df = Some ex_gap_timesheet\<rparr>"

text \<open>
  A tasks table whose budgets are ten quadrillion and one: in double precision their sum
  is ten quadrillion again.
\<close>

definition ex_big_tasks :: frame where
  "ex_big_tasks = \<lparr>columns = [''task'', ''budget''],
     rows = [[(''task'', PStr ''Inception''), (''budget'', PFloat (Fin 10000000000000000))],
             [(''task'', PStr ''Solutions''), (''budget'', PFloat (Fin 1))]],
     cats = [''task'']\<rparr>"

text \<open>
  A project with a worker at the rate 0 and an entry of infinite duration for this worker:
  the cost of the entry is not a number.
\<close>

definition ex_zero_workers :: frame where
  "ex_zero_workers = \<lparr>columns = [''worker'', ''rate''],
     rows = [[(''worker'', PStr ''A''), (''rate'', PFloat (Fin 0))],
             [(''worker'', PStr ''B''), (''rate'', PFloat (Fin 64))]],
     cats = [''worker'']\<rparr>"

definition ex_inf_timesheet :: frame where
  "ex_inf_timesheet = \<lparr>columns = [''date'', ''task'', ''worker'', ''duration''],
     rows = [[(''date'', PDate 0), (''task'', PStr ''Inception''), (''worker'', PStr ''A''),
              (''duration'', PFloat PInf)],
             [(''date'', PDate 1), (''task'', PStr ''Solutions''), (''worker'', PStr ''B''),
              (''duration'', PFloat (Fin 4))]],
     cats = [''task'', ''worker'']\<rparr>"

definition ex_inf_project :: project where
  "ex_inf_project = \<lparr>name = Scalar (PStr ''Project A''), description = Scalar (PStr ''Pirates''),
     client = Scalar (PStr ''Marine Police''), budget = Scalar (PInt 4096),
     currency = Scalar (PStr ''HKD''), tasks_df = ex_tasks, workers_df = ex_zero_workers,
     timesheet_df = Some ex_inf_timesheet\<rparr>"

text \<open>The weekly frequency: a day is sent to the first day of its week.\<close>

definition weekly :: "int \<Rightarrow> int" where
  "weekly d = 7 * (d div 7)"

text \<open>
  The cost rows of the sample project: the entry of day 9 comes second, before the entry
  of day 1.
\<close>

definition ex_costs :: frame where
  "ex_costs =
      \<lparr>columns = [''date'', ''task'', ''worker'', ''duration'', ''task_budget'',
         ''rate'', ''cost'', ''cost/task_budget'', ''cost/project_budget''],
        rows =
          [[(''date'', PDate 0), (''task'', PStr ''Inception''),
            (''worker'', PStr ''A''), (''duration'', PFloat (Fin 3)),
            (''task_budget'', PFloat (Fin 2048)),
            (''rate'', PFloat (Fin 128)), (''cost'', PFloat (Fin 384)),
            (''cost/task_budget'', PFloat (Fin (3 / 16))),
            (''cost/project_budget'', PFloat (Fin (3 / 32)))],
           [(''date'', PDate 9), (''task'', PStr ''Inception''),
            (''worker'', PStr ''B''), (''duration'', PFloat (Fin 1)),
            (''task_budget'', PFloat (Fin 2048)),
            (''rate'', PFloat (Fin 64)), (''cost'', PFloat (Fin 64)),
            (''cost/task_budget'', PFloat (Fin (1 / 32))),
            (''cost/project_budget'', PFloat (Fin (1 / 64)))],
           [(''date'', PDate 1), (''task'', PStr ''Solutions''),
            (''worker'', PStr ''B''), (''duration'', PFloat (Fin 2)),
            (''task_budget'', PFloat (Fin 2048)),
            (''rate'', PFloat (Fin 64)), (''cost'', PFloat (Fin 128)),
            (''cost/task_budget'', PFloat (Fin (1 / 16))),
            (''cost/project_budget'', PFloat (Fin (1 / 32)))]],
     cats = [''worker'', ''task'']\<rparr>"






section \<open>Notions of the specification\<close>

text \<open>
  The spec's invariant of a tasks table: the budgets of its tasks sum to the declared
  project budget, exactly (the sum is the float \<open>Series.sum\<close> returns, the comparison is
  that of floats).
\<close>

definition sums_to :: "arith \<Rightarrow> frame \<Rightarrow> pyobj \<Rightarrow> bool" where
  "sums_to A f bu =
     (case bu of
        Scalar (PInt i) \<Rightarrow>
          feq (np_sum A (map (\<lambda>r. the_flt (cell r ''budget'')) (rows f))) (np_float A i)
      | Scalar (PFloat y) \<Rightarrow>
          feq (np_sum A (map (\<lambda>r. the_flt (cell r ''budget'')) (rows f))) y
      | _ \<Rightarrow> False)"

text \<open>
  The cell \<open>c\<close> of the row of \<open>f\<close> that holds \<open>v\<close> in its column \<open>k\<close> (the first such row;
  the only one where the column has no repeated entry).
\<close>

definition lookup :: "frame \<Rightarrow> string \<Rightarrow> pyval \<Rightarrow> string \<Rightarrow> pyval" where
  "lookup f k v c =
     (case find (\<lambda>r. cell r k = v) (rows f) of None \<Rightarrow> PNone | Some r \<Rightarrow> cell r c)"

text \<open>
  The spec's CostRow of a timesheet entry: the rate of its worker, the budget of its task,
  and its cost, the duration times the rate.
\<close>

definition rate_of :: "project \<Rightarrow> row \<Rightarrow> flt" where
  "rate_of p e = the_flt (lookup (workers_df p) ''worker'' (cell e ''worker'') ''rate'')"

definition task_budget_of :: "project \<Rightarrow> row \<Rightarrow> flt" where
  "task_budget_of p e = the_flt (lookup (tasks_df p) ''task'' (cell e ''task'') ''budget'')"

definition cost_of :: "arith \<Rightarrow> project \<Rightarrow> row \<Rightarrow> flt" where
  "cost_of A p e = np_mul A (the_flt (cell e ''duration'')) (rate_of p e)"

text \<open>
  The order the two joins leave the entries of a timesheet in: grouped by worker, and
  under one worker by task.
\<close>

definition cost_order :: "frame \<Rightarrow> row list" where
  "cost_order ts =
     regroup (\<lambda>e. cell e ''worker'') (regroup (\<lambda>e. cell e ''task'') (rows ts))"

text \<open>
  \<open>compute_costs\<close> returns the frame with the columns \<open>C\<close> and one row \<open>G e\<close> for each entry
  \<open>e\<close> of the timesheet, in the order above; the cells of \<open>G e\<close> are those of the entry and
  of its CostRow; \<open>y\<close> is the project budget as a float; every entry has a float duration
  that is a number and finds its worker and its task, with a float rate and a float
  budget.
\<close>

definition is_cost_join ::
  "arith \<Rightarrow> project \<Rightarrow> frame \<Rightarrow> string list \<Rightarrow> (row \<Rightarrow> row) \<Rightarrow> flt \<Rightarrow> bool" where
  "is_cost_join A p ts C G y =
     (compute_costs A p =
        Inr \<lparr>columns = C, rows = map G (cost_order ts), cats = [''worker'', ''task'']\<rparr> \<and>
      to_num A (budget p) = Inr (PFloat y) \<and>
      set C = {''date'', ''task'', ''worker'', ''duration'', ''task_budget'', ''rate'',
               ''cost'', ''cost/task_budget'', ''cost/project_budget''} \<and>
      (\<forall>e. cell (G e) ''date'' = cell e ''date'' \<and> cell (G e) ''task'' = cell e ''task'' \<and>
           cell (G e) ''worker'' = cell e ''worker'' \<and>
           cell (G e) ''duration'' = cell e ''duration'' \<and>
           cell (G e) ''rate'' = lookup (workers_df p) ''worker'' (cell e ''worker'') ''rate'' \<and>
           cell (G e) ''task_budget'' = lookup (tasks_df p) ''task'' (cell e ''task'') ''budget'' \<and>
           cell (G e) ''cost'' = PFloat (cost_of A p e) \<and>
           cell (G e) ''cost/task_budget'' =
             PFloat (np_div A (cost_of A p e) (task_budget_of p e)) \<and>
           cell (G e) ''cost/project_budget'' = PFloat (np_div A (cost_of A p e) y)) \<and>
      (\<forall>e\<in>set (rows ts). is_float (cell e ''duration'') \<and> \<not> is_null (cell e ''duration'') \<and>
           is_float (lookup (workers_df p) ''worker'' (cell e ''worker'') ''rate'') \<and>
           is_float (lookup (tasks_df p) ''task'' (cell e ''task'') ''budget'') \<and>
           (\<exists>w\<in>set (rows (workers_df p)). cell w ''worker'' = cell e ''worker'' \<and>
              (\<forall>c. lookup (workers_df p) ''worker'' (cell e ''worker'') c = cell w c)) \<and>
           (\<exists>t\<in>set (rows (tasks_df p)). cell t ''task'' = cell e ''task'' \<and>
              (\<forall>c. lookup (tasks_df p) ''task'' (cell e ''task'') c = cell t c))))"


section \<open>Facts about the checkers\<close>

lemma ex_project_constructed:
  "Project_init exact (Scalar (PStr ''Project A'')) (Scalar (PStr ''Pirates''))
     (Scalar (PStr ''Marine Police'')) (Scalar (PInt 4096)) (Scalar (PStr ''HKD''))
     (Frame ex_tasks) (Frame ex_workers) (Frame ex_timesheet) = Inr ex_project"
  by (simp add: Project_init_def check_tasks_df_def check_workers_df_def
      check_timesheet_df_def check_df_def check_df_header_def df_no_nans_def col_def
      cell_def exact_def skipna_def ex_tasks_def ex_workers_def ex_timesheet_def ex_project_def)

lemma check_df_Frame: "check_df v cs = Inr f \<Longrightarrow> v = Frame f"
  by (cases v)
    (auto simp: check_df_def check_df_header_def df_no_nans_def split: if_splits sum.splits)

lemma check_df_columns: "check_df v cs = Inr f \<Longrightarrow> set (columns f) = set cs"
  by (cases v)
    (auto simp: check_df_def check_df_header_def df_no_nans_def split: if_splits sum.splits)

lemma find_not_float: "find (\<lambda>v. \<not> is_float v) vs = None \<longleftrightarrow> list_all is_float vs"
  by (induction vs) auto

lemma check_str_Inr: "check_str v = Inr w \<Longrightarrow> w = v \<and> is_str v"
  by (induction v rule: check_str.induct) auto

lemma check_str_is_str: "is_str v \<Longrightarrow> check_str v = Inr v"
  by (induction v rule: check_str.induct) auto

lemma check_pos_cases:
  "check_pos bu = Inr b1 \<Longrightarrow>
   b1 = bu \<and> ((\<exists>i. bu = Scalar (PInt i)) \<or> (\<exists>y. bu = Scalar (PFloat y)))"
  by (induction bu rule: check_pos.induct) (auto split: if_splits)

lemma Project_init_Inr:
  assumes "Project_init A nm ds cl bu cu ta wo ti = Inr p"
  shows "is_str nm \<and> is_str ds \<and> is_str cl \<and> is_str cu \<and> check_pos bu = Inr bu \<and>
    check_tasks_df A ta bu = Inr (tasks_df p) \<and> check_workers_df wo = Inr (workers_df p) \<and>
    check_timesheet_df ti ta wo = Inr (timesheet_df p) \<and>
    name p = nm \<and> description p = ds \<and> client p = cl \<and> budget p = bu \<and> currency p = cu"
  using assms unfolding Project_init_def
  by (auto split: sum.splits dest!: check_str_Inr check_pos_cases)

lemma ex_int_timesheet_shape:
  "check_df (Frame ex_int_timesheet) [''date'', ''task'', ''worker'', ''duration'']
     = Inr ex_int_timesheet"
  by (simp add: check_df_def check_df_header_def df_no_nans_def cell_def ex_int_timesheet_def)

lemma ex_bad_timesheet_shape:
  "check_df (Frame ex_bad_timesheet) [''date'', ''task'', ''worker'', ''duration'']
     = Inr ex_bad_timesheet"
  by (simp add: check_df_def check_df_header_def df_no_nans_def cell_def ex_bad_timesheet_def)

section \<open>The timesheet is optional (C1)\<close>

text \<open>
  C1. The claim: for an absent timesheet, \<open>check_timesheet_df\<close> returns the absent value
  and a Project can be constructed without a timesheet. The code calls \<open>.copy()\<close> on the
  argument before it tests it for \<open>None\<close>, so the absent timesheet raises an
  AttributeError: in the validator, whatever the tasks and workers are, and in the
  construction of the sample project with its seven required arguments (its other
  validators all pass).
\<close>

theorem check_timesheet_df_absent:
  "check_timesheet_df (Scalar PNone) ta wo = Inl AttributeError \<and>
   Project_new exact [Scalar (PStr ''Project A''), Scalar (PStr ''Pirates''),
     Scalar (PStr ''Marine Police''), Scalar (PInt 4096), Scalar (PStr ''HKD''),
     Frame ex_tasks, Frame ex_workers] = Inl AttributeError"
  by (simp add: Project_init_def check_tasks_df_def check_workers_df_def
      check_timesheet_df_def check_df_def check_df_header_def df_no_nans_def col_def
      cell_def exact_def skipna_def ex_tasks_def ex_workers_def)

section \<open>The budget of the tasks (C2)\<close>

lemma check_df_no_nulls:
  assumes "check_df v cs = Inr f" and "c \<in> set (columns f)" and "r \<in> set (rows f)"
  shows "\<not> is_null (cell r c)"
proof -
  from assms(1) have "\<not> list_ex (\<lambda>c. list_ex (\<lambda>r. is_null (cell r c)) (rows f)) (columns f)"
    by (cases v)
      (auto simp: check_df_def check_df_header_def df_no_nans_def split: if_splits sum.splits)
  then show ?thesis using assms(2,3) by (auto simp: list_ex_iff)
qed

lemma the_flt_number: "is_float v \<Longrightarrow> \<not> is_null v \<Longrightarrow> the_flt v \<noteq> NaN"
  by (induction v rule: is_null.induct) auto

lemma skipna_numbers:
  "(\<And>v. v \<in> set xs \<Longrightarrow> is_float v \<and> \<not> is_null v) \<Longrightarrow> skipna xs = map the_flt xs"
  unfolding skipna_def by (induction xs) (auto simp: the_flt_number)

text \<open>
  C2. For a budget that passed \<open>check_pos\<close> and a tasks table that passes the shape checks
  (\<open>check_df\<close>, and floats in the budget column), \<open>check_tasks_df\<close> succeeds exactly when
  the sum of the task budgets equals the declared budget, and fails with the budget
  mismatch (the sum and the declared budget) otherwise, with no tolerance; then the
  construction of the Project, whose four text fields pass, fails with this very error.
  The sum is the float \<open>Series.sum\<close> returns for the column, whatever the arithmetic
  rounds it to, and it is compared with the declared budget as floats are.
\<close>

theorem check_tasks_df_budget:
  assumes "check_pos bu = Inr bu"
    and "check_df ta [''task'', ''budget''] = Inr f"
    and "list_all is_float (map (\<lambda>r. cell r ''budget'') (rows f))"
  shows "check_tasks_df A ta bu =
      (if sums_to A f bu then Inr f
       else Inl (Invalid (BudgetMismatch
              (np_sum A (map (\<lambda>r. the_flt (cell r ''budget'')) (rows f))) bu))) \<and>
    (is_str nm \<and> is_str ds \<and> is_str cl \<and> is_str cu \<and> \<not> sums_to A f bu \<longrightarrow>
      Project_init A nm ds cl bu cu ta wo ti =
        Inl (Invalid (BudgetMismatch
              (np_sum A (map (\<lambda>r. the_flt (cell r ''budget'')) (rows f))) bu)))"
proof -
  have c: "''budget'' \<in> set (columns f)" using check_df_columns[OF assms(2)] by simp
  have n: "find (\<lambda>v. \<not> is_float v) (map (\<lambda>r. cell r ''budget'') (rows f)) = None"
    using assms(3) find_not_float by blast
  have "skipna (map (\<lambda>r. cell r ''budget'') (rows f))
      = map the_flt (map (\<lambda>r. cell r ''budget'') (rows f))"
  proof (rule skipna_numbers)
    fix v assume "v \<in> set (map (\<lambda>r. cell r ''budget'') (rows f))"
    then obtain r where r: "r \<in> set (rows f)" "v = cell r ''budget''" by auto
    have "is_float v" using assms(3) r by (auto simp: list_all_iff)
    moreover have "\<not> is_null v" unfolding r(2) by (rule check_df_no_nulls[OF assms(2) c r(1)])
    ultimately show "is_float v \<and> \<not> is_null v" by simp
  qed
  then have s: "skipna (map (\<lambda>r. cell r ''budget'') (rows f))
      = map (\<lambda>r. the_flt (cell r ''budget'')) (rows f)"
    by (simp add: o_def)
  from check_pos_cases[OF assms(1)] have t: "check_tasks_df A ta bu =
      (if sums_to A f bu then Inr f
       else Inl (Invalid (BudgetMismatch
              (np_sum A (map (\<lambda>r. the_flt (cell r ''budget'')) (rows f))) bu)))"
    using assms(2) c n by (auto simp: check_tasks_df_def col_def sums_to_def Let_def s)
  have "is_str nm \<and> is_str ds \<and> is_str cl \<and> is_str cu \<and> \<not> sums_to A f bu \<longrightarrow>
      Project_init A nm ds cl bu cu ta wo ti =
        Inl (Invalid (BudgetMismatch
              (np_sum A (map (\<lambda>r. the_flt (cell r ''budget'')) (rows f))) bu))"
    by (simp add: Project_init_def check_str_is_str assms(1) t)
  with t show ?thesis by blast
qed

lemma ex_tasks_shape: "check_df (Frame ex_tasks) [''task'', ''budget''] = Inr ex_tasks"
  by (simp add: check_df_def check_df_header_def df_no_nans_def cell_def ex_tasks_def)

theorem check_tasks_df_budget_witness:
  "check_pos (Scalar (PFloat (Fin 4095.5))) = Inr (Scalar (PFloat (Fin 4095.5))) \<and>
   check_df (Frame ex_tasks) [''task'', ''budget''] = Inr ex_tasks \<and>
   list_all is_float (map (\<lambda>r. cell r ''budget'') (rows ex_tasks)) \<and>
   \<not> sums_to exact ex_tasks (Scalar (PFloat (Fin 4095.5))) \<and>
   check_tasks_df exact (Frame ex_tasks) (Scalar (PFloat (Fin 4095.5))) =
     Inl (Invalid (BudgetMismatch (Fin 4096) (Scalar (PFloat (Fin 4095.5))))) \<and>
   Project_init exact (Scalar (PStr ''Project A'')) (Scalar (PStr ''Pirates''))
     (Scalar (PStr ''Marine Police'')) (Scalar (PFloat (Fin 4095.5))) (Scalar (PStr ''HKD''))
     (Frame ex_tasks) (Frame ex_workers) (Frame ex_timesheet) =
     Inl (Invalid (BudgetMismatch (Fin 4096) (Scalar (PFloat (Fin 4095.5)))))"
proof -
  have p: "check_pos (Scalar (PFloat (Fin 4095.5))) = Inr (Scalar (PFloat (Fin 4095.5)))"
    by simp
  have l: "list_all is_float (map (\<lambda>r. cell r ''budget'') (rows ex_tasks))"
    by (simp add: ex_tasks_def cell_def)
  have s: "np_sum exact (map (\<lambda>r. the_flt (cell r ''budget'')) (rows ex_tasks)) = Fin 4096"
    by (simp add: ex_tasks_def cell_def exact_def)
  have m: "\<not> sums_to exact ex_tasks (Scalar (PFloat (Fin 4095.5)))"
    by (simp add: sums_to_def ex_tasks_def cell_def exact_def)
  show ?thesis
    using check_tasks_df_budget [OF p ex_tasks_shape l, of exact "Scalar (PStr ''Project A'')"
        "Scalar (PStr ''Pirates'')" "Scalar (PStr ''Marine Police'')" "Scalar (PStr ''HKD'')"
        "Frame ex_workers" "Frame ex_timesheet"]
      p ex_tasks_shape l m
    unfolding s by simp
qed

text \<open>
  Where the sum rounds, the check follows the rounded sum: with an arithmetic in which ten
  quadrillion and one add up to ten quadrillion, as in double precision, the table of
  these two budgets is accepted for the budget ten quadrillion.
\<close>

lemma check_tasks_df_rounded:
  assumes "np_sum A [Fin 10000000000000000, Fin 1] = Fin 10000000000000000"
  shows "check_tasks_df A (Frame ex_big_tasks) (Scalar (PFloat (Fin 10000000000000000)))
     = Inr ex_big_tasks"
  using assms
  by (simp add: check_tasks_df_def check_df_def check_df_header_def df_no_nans_def col_def
      cell_def skipna_def ex_big_tasks_def)

section \<open>Unknown tasks and workers in a timesheet (C3)\<close>

text \<open>
  C3. For a timesheet that passes the generic checks (\<open>check_df\<close>, and floats in the
  duration column), checked against a tasks table with a task column and a workers table
  with a worker column: \<open>check_timesheet_df\<close> fails with the set of the timesheet's task
  names that the tasks table lacks when this set is not empty; otherwise it fails with the
  set of the timesheet's worker names that the workers table lacks when that set is not
  empty; otherwise it returns the timesheet. So the tasks are checked first, and unknown
  workers are not reported when a task is unknown.
\<close>

theorem check_timesheet_df_references:
  assumes "check_df ts [''date'', ''task'', ''worker'', ''duration''] = Inr f"
    and "list_all is_float (map (\<lambda>r. cell r ''duration'') (rows f))"
    and "getitem ta ''task'' = Inr tt"
    and "getitem wo ''worker'' = Inr ww"
  shows "check_timesheet_df ts ta wo =
     (if set (map (\<lambda>r. cell r ''task'') (rows f)) - set tt \<noteq> {}
      then Inl (Invalid (UnknownTasks (set (map (\<lambda>r. cell r ''task'') (rows f)) - set tt)))
      else if set (map (\<lambda>r. cell r ''worker'') (rows f)) - set ww \<noteq> {}
      then Inl (Invalid (UnknownWorkers (set (map (\<lambda>r. cell r ''worker'') (rows f)) - set ww)))
      else Inr (Some f))"
proof -
  have v: "ts = Frame f" using assms(1) by (rule check_df_Frame)
  have c: "set (columns f) = {''date'', ''task'', ''worker'', ''duration''}"
    using check_df_columns[OF assms(1)] by simp
  have n: "find (\<lambda>v. \<not> is_float v) (map (\<lambda>r. cell r ''duration'') (rows f)) = None"
    using assms(2) find_not_float by blast
  show ?thesis using assms(1,3,4) n unfolding v
    by (simp add: check_timesheet_df_def col_def c)
qed

theorem check_timesheet_df_references_witness:
  "check_df (Frame ex_bad_timesheet) [''date'', ''task'', ''worker'', ''duration'']
     = Inr ex_bad_timesheet \<and>
   list_all is_float (map (\<lambda>r. cell r ''duration'') (rows ex_bad_timesheet)) \<and>
   getitem (Frame ex_tasks) ''task'' = Inr [PStr ''Inception'', PStr ''Solutions''] \<and>
   getitem (Frame ex_workers) ''worker'' = Inr [PStr ''A'', PStr ''B''] \<and>
   set (map (\<lambda>r. cell r ''worker'') (rows ex_bad_timesheet)) - set [PStr ''A'', PStr ''B'']
     = {PStr ''Z''} \<and>
   check_timesheet_df (Frame ex_bad_timesheet) (Frame ex_tasks) (Frame ex_workers) =
     Inl (Invalid (UnknownTasks {PStr ''Painting''}))"
proof -
  have d: "list_all is_float (map (\<lambda>r. cell r ''duration'') (rows ex_bad_timesheet))"
    by (simp add: ex_bad_timesheet_def cell_def)
  have t: "getitem (Frame ex_tasks) ''task'' = Inr [PStr ''Inception'', PStr ''Solutions'']"
    by (simp add: col_def ex_tasks_def cell_def)
  have w: "getitem (Frame ex_workers) ''worker'' = Inr [PStr ''A'', PStr ''B'']"
    by (simp add: col_def ex_workers_def cell_def)
  have s: "set (map (\<lambda>r. cell r ''task'') (rows ex_bad_timesheet))
             - set [PStr ''Inception'', PStr ''Solutions''] = {PStr ''Painting''}"
    by (auto simp add: ex_bad_timesheet_def cell_def)
  have u: "set (map (\<lambda>r. cell r ''worker'') (rows ex_bad_timesheet))
             - set [PStr ''A'', PStr ''B''] = {PStr ''Z''}"
    by (auto simp add: ex_bad_timesheet_def cell_def)
  show ?thesis
    using check_timesheet_df_references [OF ex_bad_timesheet_shape d t w]
      ex_bad_timesheet_shape d t w u
    unfolding s by simp
qed

section \<open>Operations that need a timesheet (C7)\<close>

text \<open>
  C7. On a project whose timesheet is absent, \<open>compute_costs\<close> fails with the ValueError
  that asks for a timesheet, and so does \<open>summarize\<close>, whatever \<open>by_task\<close>, \<open>by_worker\<close> and
  the frequency are; nothing is returned.
\<close>

theorem needs_timesheet:
  "timesheet_df p = None \<Longrightarrow>
     compute_costs A p = Inl (ValueError NeedsTimesheet) \<and>
     summarize A p by_task by_worker freq = Inl (ValueError NeedsTimesheet)"
  by (simp add: compute_costs_def summarize_def)

theorem needs_timesheet_witness:
  "timesheet_df (ex_project\<lparr>timesheet_df := None\<rparr>) = None \<and>
   compute_costs exact (ex_project\<lparr>timesheet_df := None\<rparr>) = Inl (ValueError NeedsTimesheet) \<and>
   summarize exact (ex_project\<lparr>timesheet_df := None\<rparr>) True False (Some (\<lambda>d. 7 * (d div 7)))
     = Inl (ValueError NeedsTimesheet)"
  using needs_timesheet [of "ex_project\<lparr>timesheet_df := None\<rparr>" exact True False
      "Some (\<lambda>d. 7 * (d div 7))"]
  by simp

section \<open>The text fields of a project (C8)\<close>

text \<open>
  C8, as the code has it. In every successfully constructed Project the name, the
  description, the client and the currency are strings, and they are the values given;
  the construction fails when one of them is not a string. (The claim says non-empty
  strings: \<open>check_str\<close> tests the type only, and an empty string passes.)
\<close>

theorem project_text_fields:
  "(Project_init A nm ds cl bu cu ta wo ti = Inr p \<longrightarrow>
      is_str nm \<and> is_str ds \<and> is_str cl \<and> is_str cu \<and>
      name p = nm \<and> description p = ds \<and> client p = cl \<and> currency p = cu) \<and>
   (\<not> (is_str nm \<and> is_str ds \<and> is_str cl \<and> is_str cu) \<longrightarrow>
      (\<exists>e. Project_init A nm ds cl bu cu ta wo ti = Inl e))"
proof (intro conjI impI)
  assume a: "Project_init A nm ds cl bu cu ta wo ti = Inr p"
  from Project_init_Inr[OF a] show "is_str nm" "is_str ds" "is_str cl" "is_str cu"
    "name p = nm" "description p = ds" "client p = cl" "currency p = cu" by simp_all
next
  assume n: "\<not> (is_str nm \<and> is_str ds \<and> is_str cl \<and> is_str cu)"
  show "\<exists>e. Project_init A nm ds cl bu cu ta wo ti = Inl e"
  proof (cases "Project_init A nm ds cl bu cu ta wo ti")
    case (Inl e)
    then show ?thesis by blast
  next
    case (Inr q)
    from Project_init_Inr[OF Inr] n show ?thesis by simp
  qed
qed

theorem project_text_fields_witness:
  "Project_init exact (Scalar (PStr ''Project A'')) (Scalar (PStr ''Pirates''))
     (Scalar (PStr ''Marine Police'')) (Scalar (PInt 4096)) (Scalar (PStr ''HKD''))
     (Frame ex_tasks) (Frame ex_workers) (Frame ex_timesheet) = Inr ex_project \<and>
   is_str (Scalar (PStr ''Project A'')) \<and> name ex_project = Scalar (PStr ''Project A'') \<and>
   currency ex_project = Scalar (PStr ''HKD'') \<and>
   \<not> is_str (Scalar (PInt 7)) \<and>
   (\<exists>e. Project_init exact (Scalar (PInt 7)) (Scalar (PStr ''Pirates''))
     (Scalar (PStr ''Marine Police'')) (Scalar (PInt 4096)) (Scalar (PStr ''HKD''))
     (Frame ex_tasks) (Frame ex_workers) (Frame ex_timesheet) = Inl e)"
  using project_text_fields [of exact "Scalar (PStr ''Project A'')" "Scalar (PStr ''Pirates'')"
      "Scalar (PStr ''Marine Police'')" "Scalar (PInt 4096)" "Scalar (PStr ''HKD'')"
      "Frame ex_tasks" "Frame ex_workers" "Frame ex_timesheet" ex_project]
    project_text_fields [of exact "Scalar (PInt 7)" "Scalar (PStr ''Pirates'')"
      "Scalar (PStr ''Marine Police'')" "Scalar (PInt 4096)" "Scalar (PStr ''HKD'')"
      "Frame ex_tasks" "Frame ex_workers" "Frame ex_timesheet" ex_project]
    ex_project_constructed
  by simp

text \<open>
  The claim fails at the empty string: with an empty name, description, client and
  currency the construction succeeds, and the name of the project is the empty string.
\<close>

theorem empty_name_accepted:
  "Project_init exact (Scalar (PStr [])) (Scalar (PStr [])) (Scalar (PStr []))
     (Scalar (PInt 4096)) (Scalar (PStr []))
     (Frame ex_tasks) (Frame ex_workers) (Frame ex_timesheet) = Inr ex_noname_project \<and>
   name ex_noname_project = Scalar (PStr [])"
  by (simp add: Project_init_def check_tasks_df_def check_workers_df_def
      check_timesheet_df_def check_df_def check_df_header_def df_no_nans_def col_def
      cell_def exact_def skipna_def ex_tasks_def ex_workers_def ex_timesheet_def ex_noname_project_def)

section \<open>A duration that is not a float (C9)\<close>

text \<open>
  C9. A timesheet that passes the shape checks and has a duration that is not a float
  does not get the validation error that reports the value: the report formats the unbound
  name \<open>name\<close>, so the check ends in a NameError. This holds for every such timesheet, and
  the sample timesheet with an integer duration is one.
\<close>

theorem check_timesheet_df_name_error:
  assumes "check_df ts [''date'', ''task'', ''worker'', ''duration''] = Inr f"
    and "\<not> list_all is_float (map (\<lambda>r. cell r ''duration'') (rows f))"
  shows "check_timesheet_df ts ta wo = Inl NameError"
proof -
  have v: "ts = Frame f" using assms(1) by (rule check_df_Frame)
  have c: "''duration'' \<in> set (columns f)" using check_df_columns[OF assms(1)] by simp
  obtain x where "find (\<lambda>v. \<not> is_float v) (map (\<lambda>r. cell r ''duration'') (rows f)) = Some x"
    using assms(2) find_not_float by fastforce
  then show ?thesis using assms(1) c unfolding v
    by (simp add: check_timesheet_df_def col_def)
qed

theorem check_timesheet_df_name_error_witness:
  "check_df (Frame ex_int_timesheet) [''date'', ''task'', ''worker'', ''duration'']
     = Inr ex_int_timesheet \<and>
   \<not> list_all is_float (map (\<lambda>r. cell r ''duration'') (rows ex_int_timesheet)) \<and>
   check_timesheet_df (Frame ex_int_timesheet) (Frame ex_tasks) (Frame ex_workers)
     = Inl NameError"
proof -
  have n: "\<not> list_all is_float (map (\<lambda>r. cell r ''duration'') (rows ex_int_timesheet))"
    by (simp add: ex_int_timesheet_def cell_def)
  show ?thesis
    using check_timesheet_df_name_error [OF ex_int_timesheet_shape n] ex_int_timesheet_shape n
    by simp
qed
section \<open>The cost join (C4)\<close>

lemma cell_mk_row: "cell (mk_row cs g) c = (if c \<in> set cs then g c else PNone)"
  by (induction cs) (auto simp: cell_def mk_row_def)

lemma mapE_Inr: "(\<And>x. x \<in> set xs \<Longrightarrow> g x = Inr (h x)) \<Longrightarrow> mapE g xs = Inr (map h xs)"
  by (induction xs) auto

lemma mapE_map: "mapE g (map k xs) = mapE (\<lambda>x. g (k x)) xs"
  by (induction xs) (auto split: sum.splits)

lemma zip_map_same: "zip (map a es) (map b es) = map (\<lambda>e. (a e, b e)) es"
  by (induction es) auto

lemma series_mul_map:
  assumes "\<And>e. e \<in> set es \<Longrightarrow> is_float (a e) \<and> is_float (b e)"
  shows "series_mul A (map a es) (map b es) =
         Inr (map (\<lambda>e. PFloat (np_mul A (the_flt (a e)) (the_flt (b e)))) es)"
proof -
  have "\<And>e. e \<in> set es \<Longrightarrow> num_mul A (a e) (b e) = Inr (PFloat (np_mul A (the_flt (a e)) (the_flt (b e))))"
  proof -
    fix e assume "e \<in> set es"
    then have "is_float (a e)" "is_float (b e)" using assms by auto
    then show "num_mul A (a e) (b e) = Inr (PFloat (np_mul A (the_flt (a e)) (the_flt (b e))))"
      by (cases "a e"; cases "b e") auto
  qed
  then show ?thesis
    by (simp add: series_mul_def zip_map_same mapE_map mapE_Inr)
qed

lemma series_div_map:
  assumes "\<And>e. e \<in> set es \<Longrightarrow> is_float (a e) \<and> is_float (b e)"
  shows "series_div A (map a es) (map b es) =
         Inr (map (\<lambda>e. PFloat (np_div A (the_flt (a e)) (the_flt (b e)))) es)"
proof -
  have "\<And>e. e \<in> set es \<Longrightarrow> num_div A (a e) (b e) = Inr (PFloat (np_div A (the_flt (a e)) (the_flt (b e))))"
  proof -
    fix e assume "e \<in> set es"
    then have "is_float (a e)" "is_float (b e)" using assms by auto
    then show "num_div A (a e) (b e) = Inr (PFloat (np_div A (the_flt (a e)) (the_flt (b e))))"
      by (cases "a e"; cases "b e") auto
  qed
  then show ?thesis
    by (simp add: series_div_def zip_map_same mapE_map mapE_Inr)
qed

lemma series_div_scalar_map:
  assumes "\<And>e. e \<in> set es \<Longrightarrow> is_float (a e)" and "to_num A d = Inr (PFloat y)"
  shows "series_div_scalar A (map a es) d =
         Inr (map (\<lambda>e. PFloat (np_div A (the_flt (a e)) y)) es)"
proof -
  have "\<And>e. e \<in> set es \<Longrightarrow> num_div A (a e) (PFloat y) = Inr (PFloat (np_div A (the_flt (a e)) y))"
  proof -
    fix e assume "e \<in> set es"
    then have "is_float (a e)" using assms by auto
    then show "num_div A (a e) (PFloat y) = Inr (PFloat (np_div A (the_flt (a e)) y))"
      by (cases "a e") auto
  qed
  then show ?thesis
    by (simp add: series_div_scalar_def assms(2) mapE_map mapE_Inr)
qed

lemma col_map:
  "c \<in> set (columns f) \<Longrightarrow> rows f = map H es \<Longrightarrow> col f c = Inr (map (\<lambda>e. cell (H e) c) es)"
  by (simp add: col_def)

lemma set_col_map:
  "rows f = map H es \<Longrightarrow>
   set_col f c (map v es) =
     Inr \<lparr>columns = (if c \<in> set (columns f) then columns f else columns f @ [c]),
          rows = map (\<lambda>e. mk_row (if c \<in> set (columns f) then columns f else columns f @ [c])
                          (\<lambda>k. if k = c then v e else cell (H e) k)) es,
          cats = removeAll c (cats f)\<rparr>"
  by (simp add: set_col_def zip_map_same Let_def)

lemma filter_none: "v \<notin> f ` set xs \<Longrightarrow> filter (\<lambda>x. v = f x) xs = []"
  by (induction xs) auto

lemma find_filter_unique:
  "distinct (map f xs) \<Longrightarrow> v \<in> f ` set xs \<Longrightarrow>
   \<exists>x. find (\<lambda>x. f x = v) xs = Some x \<and> filter (\<lambda>x. v = f x) xs = [x]"
proof (induction xs)
  case Nil
  then show ?case by simp
next
  case (Cons a xs)
  show ?case
  proof (cases "f a = v")
    case True
    have "v \<notin> f ` set xs" using Cons.prems(1) True by auto
    then have "filter (\<lambda>x. v = f x) xs = []" by (rule filter_none)
    then show ?thesis using True by simp
  next
    case False
    then have "v \<in> f ` set xs" using Cons.prems(2) by auto
    moreover have "distinct (map f xs)" using Cons.prems(1) by simp
    ultimately obtain x where "find (\<lambda>x. f x = v) xs = Some x" "filter (\<lambda>x. v = f x) xs = [x]"
      using Cons.IH by blast
    then show ?thesis using False by auto
  qed
qed

lemma concat_singletons: "concat (map (\<lambda>l. [h l]) ls) = map h ls"
  by (induction ls) auto

lemma regroup_cong:
  "(\<And>x y. (k1 x = k1 y) = (k2 x = k2 y)) \<Longrightarrow> regroup k1 xs = regroup k2 xs"
  by (induction k1 xs rule: regroup.induct) simp_all

lemma regroup_map: "regroup k (map H xs) = map H (regroup (\<lambda>x. k (H x)) xs)"
  by (induction "\<lambda>x. k (H x)" xs rule: regroup.induct) (simp_all add: filter_map o_def)

lemma set_regroup: "set (regroup k xs) = set xs"
  by (induction k xs rule: regroup.induct) auto




lemma set_cost_order: "set (cost_order ts) = set (rows ts)"
  by (simp add: cost_order_def set_regroup)

lemma merge_unique:
  assumes on: "set (filter (\<lambda>c. c \<in> set (columns R)) (columns L)) = {k}"
    and d: "distinct (map (\<lambda>r. cell r k) (rows R))"
    and m: "\<And>l. l \<in> set (rows L) \<Longrightarrow> cell l k \<in> (\<lambda>r. cell r k) ` set (rows R)"
  shows "merge L R =
     Inr \<lparr>columns = columns L @ filter (\<lambda>c. c \<noteq> k) (columns R),
          rows = map (\<lambda>l. mk_row (columns L @ filter (\<lambda>c. c \<noteq> k) (columns R))
                     (\<lambda>c. if c \<in> set (columns L) then cell l c else lookup R k (cell l k) c))
                   (regroup (\<lambda>l. cell l k) (rows L)),
          cats = []\<rparr>"
proof -
  define gs where "gs = regroup (\<lambda>l. cell l k) (rows L)"
  define on where "on = filter (\<lambda>c. c \<in> set (columns R)) (columns L)"
  define cs where "cs = columns L @ filter (\<lambda>c. c \<noteq> k) (columns R)"
  have son: "set on = {k}" unfolding on_def by (rule on)
  have ne: "on \<noteq> []" using son by (cases on) simp_all
  have cs: "columns L @ filter (\<lambda>c. c \<notin> set on) (columns R) = cs"
    by (simp only: son cs_def singleton_iff)
  have rk: "regroup (\<lambda>l. map (cell l) on) (rows L) = gs"
    unfolding gs_def by (rule regroup_cong) (simp add: son)
  have la: "\<And>l r. list_all (\<lambda>c. cell l c = cell r c) on = (cell l k = cell r k)"
    by (simp add: list_all_iff son)
  have row: "map (\<lambda>r. mk_row cs (\<lambda>c. if c \<in> set (columns L) then cell l c else cell r c))
        (filter (\<lambda>r. cell l k = cell r k) (rows R))
      = [mk_row cs (\<lambda>c. if c \<in> set (columns L) then cell l c else lookup R k (cell l k) c)]"
    if lin: "l \<in> set gs" for l
  proof -
    obtain x where x: "find (\<lambda>r. cell r k = cell l k) (rows R) = Some x"
        "filter (\<lambda>r. cell l k = cell r k) (rows R) = [x]"
      using find_filter_unique[OF d m[OF lin[unfolded gs_def set_regroup]]] by blast
    have lk: "\<And>c. lookup R k (cell l k) c = cell x c" by (simp add: lookup_def x(1))
    show ?thesis unfolding x(2) lk by simp
  qed
  have "concat (map (\<lambda>l. map (\<lambda>r. mk_row cs (\<lambda>c. if c \<in> set (columns L) then cell l c else cell r c))
        (filter (\<lambda>r. cell l k = cell r k) (rows R))) gs)
     = concat (map (\<lambda>l. [mk_row cs (\<lambda>c. if c \<in> set (columns L) then cell l c else lookup R k (cell l k) c)]) gs)"
    by (rule arg_cong[where f=concat], rule map_cong[OF refl], rule row)
  then have rw: "concat (map (\<lambda>l. map (\<lambda>r. mk_row cs (\<lambda>c. if c \<in> set (columns L) then cell l c else cell r c))
        (filter (\<lambda>r. cell l k = cell r k) (rows R))) gs)
     = map (\<lambda>l. mk_row cs (\<lambda>c. if c \<in> set (columns L) then cell l c else lookup R k (cell l k) c)) gs"
    by (simp only: concat_singletons)
  have "merge L R = Inr \<lparr>columns = cs,
          rows = concat (map (\<lambda>l. map (\<lambda>r. mk_row cs (\<lambda>c. if c \<in> set (columns L) then cell l c else cell r c))
        (filter (\<lambda>r. cell l k = cell r k) (rows R))) gs), cats = []\<rparr>"
    unfolding merge_def on_def[symmetric] Let_def cs la rk using ne by simp
  then have "merge L R = Inr \<lparr>columns = cs,
          rows = map (\<lambda>l. mk_row cs (\<lambda>c. if c \<in> set (columns L) then cell l c else lookup R k (cell l k) c)) gs, cats = []\<rparr>"
    by (simp only: rw)
  then show ?thesis unfolding cs_def gs_def .
qed

lemma check_tasks_df_Inr:
  assumes "check_tasks_df A ta bu = Inr f"
  shows "ta = Frame f \<and> set (columns f) = {''task'', ''budget''} \<and>
         list_all is_float (map (\<lambda>r. cell r ''budget'') (rows f))"
proof -
  from assms obtain g where g: "check_df ta [''task'', ''budget''] = Inr g"
    by (auto simp: check_tasks_df_def split: sum.splits)
  have c: "set (columns g) = {''task'', ''budget''}" using check_df_columns[OF g] by simp
  from assms g c have "g = f \<and> find (\<lambda>v. \<not> is_float v) (map (\<lambda>r. cell r ''budget'') (rows g)) = None"
    by (auto simp: check_tasks_df_def col_def Let_def split: sum.splits option.splits bool.splits)
  then show ?thesis using check_df_Frame[OF g] c find_not_float by auto
qed

lemma check_workers_df_Inr:
  assumes "check_workers_df wo = Inr f"
  shows "wo = Frame f \<and> set (columns f) = {''worker'', ''rate''} \<and>
         list_all is_float (map (\<lambda>r. cell r ''rate'') (rows f))"
proof -
  from assms obtain g where g: "check_df wo [''worker'', ''rate''] = Inr g"
    by (auto simp: check_workers_df_def split: sum.splits)
  have c: "set (columns g) = {''worker'', ''rate''}" using check_df_columns[OF g] by simp
  from assms g c have "g = f \<and> find (\<lambda>v. \<not> is_float v) (map (\<lambda>r. cell r ''rate'') (rows g)) = None"
    by (auto simp: check_workers_df_def col_def split: sum.splits option.splits)
  then show ?thesis using check_df_Frame[OF g] c find_not_float by auto
qed

lemma if_chain_Inr:
  "(if A then Inl a else if B then Inl b else Inr c) = Inr d \<Longrightarrow> \<not> A \<and> \<not> B \<and> c = d"
  by (simp split: if_splits)

lemma check_timesheet_df_Some:
  assumes "check_timesheet_df ti (Frame T) (Frame W) = Inr (Some f)"
    and "''task'' \<in> set (columns T)" and "''worker'' \<in> set (columns W)"
  shows "set (columns f) = {''date'', ''task'', ''worker'', ''duration''} \<and>
         list_all is_float (map (\<lambda>r. cell r ''duration'') (rows f)) \<and>
         set (map (\<lambda>r. cell r ''task'') (rows f)) \<subseteq> set (map (\<lambda>r. cell r ''task'') (rows T)) \<and>
         set (map (\<lambda>r. cell r ''worker'') (rows f)) \<subseteq> set (map (\<lambda>r. cell r ''worker'') (rows W)) \<and>
         (\<forall>r\<in>set (rows f). \<not> is_null (cell r ''duration''))"
proof -
  from assms(1) obtain f0 where f0: "py_copy ti = Inr f0" "f0 \<noteq> Scalar PNone"
    by (auto simp: check_timesheet_df_def split: sum.splits if_splits)
  from assms(1) f0 obtain g where g: "check_df f0 [''date'', ''task'', ''worker'', ''duration''] = Inr g"
    by (auto simp: check_timesheet_df_def split: sum.splits if_splits)
  have v: "f0 = Frame g" using g by (rule check_df_Frame)
  have c: "set (columns g) = {''date'', ''task'', ''worker'', ''duration''}"
    using check_df_columns[OF g] by simp
  have n: "find (\<lambda>v. \<not> is_float v) (map (\<lambda>r. cell r ''duration'') (rows g)) = None"
  proof (cases "find (\<lambda>v. \<not> is_float v) (map (\<lambda>r. cell r ''duration'') (rows g))")
    case None
    then show ?thesis .
  next
    case (Some x)
    have "check_timesheet_df ti (Frame T) (Frame W) = Inl NameError"
      using f0 g c Some unfolding v by (simp add: check_timesheet_df_def col_def)
    with assms(1) show ?thesis by simp
  qed
  have e: "check_timesheet_df ti (Frame T) (Frame W) =
     (if set (map (\<lambda>r. cell r ''task'') (rows g)) - set (map (\<lambda>r. cell r ''task'') (rows T)) \<noteq> {}
      then Inl (Invalid (UnknownTasks (set (map (\<lambda>r. cell r ''task'') (rows g)) - set (map (\<lambda>r. cell r ''task'') (rows T)))))
      else if set (map (\<lambda>r. cell r ''worker'') (rows g)) - set (map (\<lambda>r. cell r ''worker'') (rows W)) \<noteq> {}
      then Inl (Invalid (UnknownWorkers (set (map (\<lambda>r. cell r ''worker'') (rows g)) - set (map (\<lambda>r. cell r ''worker'') (rows W)))))
      else Inr (Some g))"
    using f0 g c n assms(2,3) unfolding v by (simp add: check_timesheet_df_def col_def)
  from assms(1)[unfolded e] have k:
     "\<not> set (map (\<lambda>r. cell r ''task'') (rows g)) - set (map (\<lambda>r. cell r ''task'') (rows T)) \<noteq> {} \<and>
      \<not> set (map (\<lambda>r. cell r ''worker'') (rows g)) - set (map (\<lambda>r. cell r ''worker'') (rows W)) \<noteq> {} \<and>
      Some g = Some f"
    by (rule if_chain_Inr)
  have d1: "set (map (\<lambda>r. cell r ''task'') (rows g)) - set (map (\<lambda>r. cell r ''task'') (rows T)) = {}"
    using k by blast
  have d2: "set (map (\<lambda>r. cell r ''worker'') (rows g)) - set (map (\<lambda>r. cell r ''worker'') (rows W)) = {}"
    using k by blast
  have gf: "g = f" using k by blast
  have nn: "\<forall>r\<in>set (rows g). \<not> is_null (cell r ''duration'')"
  proof
    fix r assume "r \<in> set (rows g)"
    with check_df_no_nulls[OF g, of "''duration''" r] c show "\<not> is_null (cell r ''duration'')"
      by simp
  qed
  show ?thesis
    using c n d1 d2 nn unfolding gf find_not_float Diff_eq_empty_iff by blast
qed

lemma lookup_in:
  assumes "v \<in> (\<lambda>r. cell r k) ` set (rows f)"
  shows "\<exists>r\<in>set (rows f). cell r k = v \<and> (\<forall>c. lookup f k v c = cell r c)"
proof -
  from assms have "\<exists>r. find (\<lambda>r. cell r k = v) (rows f) = Some r"
    by (cases "find (\<lambda>r. cell r k = v) (rows f)") (auto simp: find_None_iff)
  then obtain r where r: "find (\<lambda>r. cell r k = v) (rows f) = Some r" by blast
  then have "r \<in> set (rows f) \<and> cell r k = v"
    by (auto simp: find_Some_iff)
  then show ?thesis using r by (auto simp: lookup_def)
qed

lemma cell_rename:
  "b \<notin> set cs \<Longrightarrow>
   cell (map (\<lambda>c. (if c = a then b else c, g c)) cs) k =
     (if k = b then (if a \<in> set cs then g a else PNone)
      else if k = a then PNone else if k \<in> set cs then g k else PNone)"
  by (induction cs) (auto simp: cell_def)

lemma is_cost_join_frame:
  "is_cost_join A p ts C G y \<Longrightarrow>
   compute_costs A p = Inr \<lparr>columns = C, rows = map G (cost_order ts), cats = [''worker'', ''task'']\<rparr>"
  by (simp add: is_cost_join_def)

lemma is_cost_join_budget: "is_cost_join A p ts C G y \<Longrightarrow> to_num A (budget p) = Inr (PFloat y)"
  by (simp add: is_cost_join_def)

lemma is_cost_join_columns:
  "is_cost_join A p ts C G y \<Longrightarrow>
   set C = {''date'', ''task'', ''worker'', ''duration'', ''task_budget'', ''rate'',
            ''cost'', ''cost/task_budget'', ''cost/project_budget''}"
  by (simp add: is_cost_join_def)

lemma is_cost_join_cells:
  "is_cost_join A p ts C G y \<Longrightarrow>
     cell (G e) ''date'' = cell e ''date'' \<and> cell (G e) ''task'' = cell e ''task'' \<and>
     cell (G e) ''worker'' = cell e ''worker'' \<and>
     cell (G e) ''duration'' = cell e ''duration'' \<and>
     cell (G e) ''rate'' = lookup (workers_df p) ''worker'' (cell e ''worker'') ''rate'' \<and>
     cell (G e) ''task_budget'' = lookup (tasks_df p) ''task'' (cell e ''task'') ''budget'' \<and>
     cell (G e) ''cost'' = PFloat (cost_of A p e) \<and>
     cell (G e) ''cost/task_budget'' = PFloat (np_div A (cost_of A p e) (task_budget_of p e)) \<and>
     cell (G e) ''cost/project_budget'' = PFloat (np_div A (cost_of A p e) y)"
  unfolding is_cost_join_def by (elim conjE) (erule allE)

lemma is_cost_join_entries:
  "is_cost_join A p ts C G y \<Longrightarrow> e \<in> set (rows ts) \<Longrightarrow>
     is_float (cell e ''duration'') \<and> \<not> is_null (cell e ''duration'') \<and>
     is_float (lookup (workers_df p) ''worker'' (cell e ''worker'') ''rate'') \<and>
     is_float (lookup (tasks_df p) ''task'' (cell e ''task'') ''budget'') \<and>
     (\<exists>w\<in>set (rows (workers_df p)). cell w ''worker'' = cell e ''worker'' \<and>
        (\<forall>c. lookup (workers_df p) ''worker'' (cell e ''worker'') c = cell w c)) \<and>
     (\<exists>t\<in>set (rows (tasks_df p)). cell t ''task'' = cell e ''task'' \<and>
        (\<forall>c. lookup (tasks_df p) ''task'' (cell e ''task'') c = cell t c))"
  unfolding is_cost_join_def by (elim conjE, drule (1) bspec, assumption)

lemma list_all_map_mem: "list_all P (map g xs) \<Longrightarrow> x \<in> set xs \<Longrightarrow> P (g x)"
  by (induction xs) auto

lemma to_num_check_pos: "check_pos bu = Inr b1 \<Longrightarrow> \<exists>y. to_num A bu = Inr (PFloat y)"
  by (induction bu rule: check_pos.induct) (auto split: if_splits)

lemma lookup_float:
  assumes "list_all is_float (map (\<lambda>r. cell r c) (rows f))"
    and "v \<in> set (map (\<lambda>r. cell r k) (rows f))"
  shows "is_float (lookup f k v c)"
proof -
  from assms(2) have "v \<in> (\<lambda>r. cell r k) ` set (rows f)" by simp
  from lookup_in[OF this] obtain r where r: "r \<in> set (rows f)" "lookup f k v c = cell r c"
    by blast
  show ?thesis unfolding r(2) using assms(1) r(1) by (rule list_all_map_mem)
qed

lemma compute_costs_valid:
  assumes init: "Project_init A nm ds cl bu cu ta wo ti = Inr p"
    and ts: "timesheet_df p = Some ts"
    and dT: "distinct (map (\<lambda>r. cell r ''task'') (rows (tasks_df p)))"
    and dW: "distinct (map (\<lambda>r. cell r ''worker'') (rows (workers_df p)))"
  shows "\<exists>C G y. is_cost_join A p ts C G y"
proof -
  define T where "T = tasks_df p"
  define W where "W = workers_df p"
  define es1 where "es1 = regroup (\<lambda>e. cell e ''task'') (rows ts)"
  define es where "es = cost_order ts"
  have ses1: "set es1 = set (rows ts)" by (simp add: es1_def set_regroup)
  have ses: "set es = set (rows ts)" by (simp add: es_def set_cost_order)
  have es: "es = regroup (\<lambda>e. cell e ''worker'') es1" by (simp add: es_def es1_def cost_order_def)
  note I = Project_init_Inr[OF init]
  have ct: "check_tasks_df A ta bu = Inr T" and cw: "check_workers_df wo = Inr W"
    and cti: "check_timesheet_df ti ta wo = Inr (Some ts)" and bp: "budget p = bu"
    and cp: "check_pos bu = Inr bu"
    using I ts by (simp_all add: T_def W_def)
  note VT = check_tasks_df_Inr[OF ct] and VW = check_workers_df_Inr[OF cw]
  have taT: "ta = Frame T" and colT: "set (columns T) = {''task'', ''budget''}"
    and flT: "list_all is_float (map (\<lambda>r. cell r ''budget'') (rows T))"
    using VT by simp_all
  have woW: "wo = Frame W" and colW: "set (columns W) = {''worker'', ''rate''}"
    and flW: "list_all is_float (map (\<lambda>r. cell r ''rate'') (rows W))"
    using VW by simp_all
  have VS: "set (columns ts) = {''date'', ''task'', ''worker'', ''duration''} \<and>
         list_all is_float (map (\<lambda>r. cell r ''duration'') (rows ts)) \<and>
         set (map (\<lambda>r. cell r ''task'') (rows ts)) \<subseteq> set (map (\<lambda>r. cell r ''task'') (rows T)) \<and>
         set (map (\<lambda>r. cell r ''worker'') (rows ts)) \<subseteq> set (map (\<lambda>r. cell r ''worker'') (rows W)) \<and>
         (\<forall>r\<in>set (rows ts). \<not> is_null (cell r ''duration''))"
    by (rule check_timesheet_df_Some[OF cti[unfolded taT woW]]) (simp_all add: colT colW)
  have colS: "set (columns ts) = {''date'', ''task'', ''worker'', ''duration''}"
    and flS: "list_all is_float (map (\<lambda>r. cell r ''duration'') (rows ts))"
    and subT: "set (map (\<lambda>r. cell r ''task'') (rows ts)) \<subseteq> set (map (\<lambda>r. cell r ''task'') (rows T))"
    and subW: "set (map (\<lambda>r. cell r ''worker'') (rows ts)) \<subseteq> set (map (\<lambda>r. cell r ''worker'') (rows W))"
    and nnS: "\<forall>r\<in>set (rows ts). \<not> is_null (cell r ''duration'')"
    using VS by blast+
  obtain y where y: "to_num A bu = Inr (PFloat y)" using to_num_check_pos[OF cp] by blast
  have memT: "cell e ''task'' \<in> set (map (\<lambda>r. cell r ''task'') (rows T))" if "e \<in> set es" for e
    using subT that unfolding ses by (simp add: subset_iff)
  have memW: "cell e ''worker'' \<in> set (map (\<lambda>r. cell r ''worker'') (rows W))" if "e \<in> set es" for e
    using subW that unfolding ses by (simp add: subset_iff)
  have fdu: "is_float (cell e ''duration'')" if "e \<in> set es" for e
    using flS that unfolding ses by (rule list_all_map_mem)
  have fra: "is_float (lookup W ''worker'' (cell e ''worker'') ''rate'')" if "e \<in> set es" for e
    using flW memW[OF that] by (rule lookup_float)
  have ftb: "is_float (lookup T ''task'' (cell e ''task'') ''budget'')" if "e \<in> set es" for e
    using flT memT[OF that] by (rule lookup_float)
  define c1 where "c1 = columns ts @ filter (\<lambda>c. c \<noteq> ''task'') (columns T)"
  define H1 where "H1 = (\<lambda>l. mk_row c1
      (\<lambda>c. if c \<in> set (columns ts) then cell l c else lookup T ''task'' (cell l ''task'') c))"
  define f1 where "f1 = \<lparr>columns = c1, rows = map H1 es1, cats = []\<rparr>"
  have on1: "set (filter (\<lambda>c. c \<in> set (columns T)) (columns ts)) = {''task''}"
    by (auto simp: colT colS)
  have m1: "merge ts T = Inr f1"
    unfolding f1_def H1_def c1_def es1_def
    by (rule merge_unique[OF on1 dT[folded T_def]]) (use memT in \<open>simp add: ses\<close>)
  have s1: "set c1 = {''date'', ''task'', ''worker'', ''duration'', ''budget''}"
    by (auto simp: c1_def colT colS)
  have cell1: "cell (H1 e) k = (if k \<in> set c1 then
        (if k \<in> set (columns ts) then cell e k else lookup T ''task'' (cell e ''task'') k)
        else PNone)" for e k
    by (simp add: H1_def cell_mk_row)
  define c2 where "c2 = c1 @ filter (\<lambda>c. c \<noteq> ''worker'') (columns W)"
  define H2 where "H2 = (\<lambda>e. mk_row c2
      (\<lambda>c. if c \<in> set c1 then cell (H1 e) c else lookup W ''worker'' (cell (H1 e) ''worker'') c))"
  define f2 where "f2 = \<lparr>columns = c2, rows = map H2 es, cats = []\<rparr>"
  have on2: "set (filter (\<lambda>c. c \<in> set (columns W)) (columns f1)) = {''worker''}"
    by (auto simp: f1_def s1 colW)
  have w1: "cell (H1 e) ''worker'' = cell e ''worker''" for e
    by (simp add: cell1 s1 colS)
  have mem2: "cell l ''worker'' \<in> (\<lambda>r. cell r ''worker'') ` set (rows W)" if "l \<in> set (rows f1)" for l
  proof -
    from that obtain e where e: "e \<in> set es" "l = H1 e" by (auto simp: f1_def ses ses1)
    show ?thesis using memW[OF e(1)] unfolding e(2) w1 by simp
  qed
  have "merge f1 W = Inr \<lparr>columns = columns f1 @ filter (\<lambda>c. c \<noteq> ''worker'') (columns W),
          rows = map (\<lambda>l. mk_row (columns f1 @ filter (\<lambda>c. c \<noteq> ''worker'') (columns W))
                     (\<lambda>c. if c \<in> set (columns f1) then cell l c
                          else lookup W ''worker'' (cell l ''worker'') c))
                   (regroup (\<lambda>l. cell l ''worker'') (rows f1)), cats = []\<rparr>"
    by (rule merge_unique[OF on2 dW[folded W_def] mem2])
  moreover have "regroup (\<lambda>l. cell l ''worker'') (rows f1) = map H1 es"
    by (simp add: f1_def regroup_map w1 es)
  ultimately have m2: "merge f1 W = Inr f2"
    by (simp add: f1_def f2_def H2_def c2_def o_def)
  have s2: "set c2 = {''date'', ''task'', ''worker'', ''duration'', ''budget'', ''rate''}"
    by (auto simp: c2_def s1 colW)
  have cell2: "cell (H2 e) k = (if k \<in> set c2 then
        (if k \<in> set c1 then cell (H1 e) k else lookup W ''worker'' (cell e ''worker'') k)
        else PNone)" for e k
    by (simp add: H2_def cell_mk_row w1)
  define f3 where "f3 = \<lparr>columns = c2, rows = map H2 es, cats = [''task'']\<rparr>"
  define f4 where "f4 = \<lparr>columns = c2, rows = map H2 es, cats = [''worker'', ''task'']\<rparr>"
  have a1: "astype_category f2 ''task'' = Inr f3" and a2: "astype_category f3 ''worker'' = Inr f4"
    by (simp_all add: astype_category_def f2_def f3_def f4_def s2)
  define c5 where "c5 = map (\<lambda>c. if c = ''budget'' then ''task_budget'' else c) c2"
  define H5 where "H5 = (\<lambda>e. map (\<lambda>c. (if c = ''budget'' then ''task_budget'' else c, cell (H2 e) c)) c2)"
  define f5 where "f5 = \<lparr>columns = c5, rows = map H5 es, cats = [''worker'', ''task'']\<rparr>"
  have r5: "rename_col f4 ''budget'' ''task_budget'' = f5"
    by (simp add: rename_col_def f4_def f5_def c5_def H5_def o_def)
  have s5: "set c5 = {''date'', ''task'', ''worker'', ''duration'', ''task_budget'', ''rate''}"
    by (auto simp: c5_def s2)
  have nb: "''task_budget'' \<notin> set c2" by (simp add: s2)
  have cell5: "cell (H5 e) k =
     (if k = ''task_budget'' then (if ''budget'' \<in> set c2 then cell (H2 e) ''budget'' else PNone)
      else if k = ''budget'' then PNone else if k \<in> set c2 then cell (H2 e) k else PNone)" for e k
    unfolding H5_def by (rule cell_rename[OF nb])
  have d5: "cell (H5 e) ''duration'' = cell e ''duration''"
    and r5c: "cell (H5 e) ''rate'' = lookup W ''worker'' (cell e ''worker'') ''rate''"
    and t5: "cell (H5 e) ''task_budget'' = lookup T ''task'' (cell e ''task'') ''budget''"
    and k5: "cell (H5 e) ''date'' = cell e ''date''" "cell (H5 e) ''task'' = cell e ''task''"
       "cell (H5 e) ''worker'' = cell e ''worker''" for e
    by (simp_all add: cell5 cell2 cell1 s2 s1 colS)
  define du where "du = map (\<lambda>e. cell e ''duration'') es"
  define ra where "ra = map (\<lambda>e. lookup W ''worker'' (cell e ''worker'') ''rate'') es"
  define co where "co = map (\<lambda>e. PFloat (cost_of A p e)) es"
  have rows5: "rows f5 = map H5 es" by (simp add: f5_def)
  have cdu: "col f5 ''duration'' = Inr du"
    using col_map[OF _ rows5, of "''duration''"] by (simp add: f5_def s5 d5 du_def)
  have cra: "col f5 ''rate'' = Inr ra"
    using col_map[OF _ rows5, of "''rate''"] by (simp add: f5_def s5 r5c ra_def)
  have sm: "series_mul A du ra = Inr co"
    unfolding du_def ra_def co_def cost_of_def rate_of_def W_def[symmetric]
    by (rule series_mul_map) (use fdu fra in blast)
  define c6 where "c6 = c5 @ [''cost'']"
  define H6 where "H6 = (\<lambda>e. mk_row c6 (\<lambda>k. if k = ''cost'' then PFloat (cost_of A p e) else cell (H5 e) k))"
  define f6 where "f6 = \<lparr>columns = c6, rows = map H6 es, cats = [''worker'', ''task'']\<rparr>"
  have sc6: "set_col f5 ''cost'' co = Inr f6"
    using set_col_map[OF rows5, of "''cost''" "\<lambda>e. PFloat (cost_of A p e)"]
    by (simp add: co_def f5_def s5 f6_def c6_def H6_def)
  have s6: "set c6 = {''date'', ''task'', ''worker'', ''duration'', ''task_budget'', ''rate'', ''cost''}"
    by (auto simp: c6_def s5)
  have cell6: "cell (H6 e) k = (if k \<in> set c6 then
       (if k = ''cost'' then PFloat (cost_of A p e) else cell (H5 e) k) else PNone)" for e k
    by (simp add: H6_def cell_mk_row)
  define tb where "tb = map (\<lambda>e. lookup T ''task'' (cell e ''task'') ''budget'') es"
  define r1 where "r1 = map (\<lambda>e. PFloat (np_div A (cost_of A p e) (task_budget_of p e))) es"
  have rows6: "rows f6 = map H6 es" by (simp add: f6_def)
  have cco: "col f6 ''cost'' = Inr co"
    using col_map[OF _ rows6, of "''cost''"] by (simp add: f6_def s6 cell6 co_def)
  have ctb: "col f6 ''task_budget'' = Inr tb"
    using col_map[OF _ rows6, of "''task_budget''"] by (simp add: f6_def s6 cell6 t5 tb_def)
  have sd: "series_div A co tb = Inr r1"
    using series_div_map[of es "\<lambda>e. PFloat (cost_of A p e)" "\<lambda>e. lookup T ''task'' (cell e ''task'') ''budget''"] ftb
    by (simp add: co_def tb_def r1_def task_budget_of_def T_def)
  define c7 where "c7 = c6 @ [''cost/task_budget'']"
  define H7 where "H7 = (\<lambda>e. mk_row c7 (\<lambda>k. if k = ''cost/task_budget''
       then PFloat (np_div A (cost_of A p e) (task_budget_of p e)) else cell (H6 e) k))"
  define f7 where "f7 = \<lparr>columns = c7, rows = map H7 es, cats = [''worker'', ''task'']\<rparr>"
  have sc7: "set_col f6 ''cost/task_budget'' r1 = Inr f7"
    using set_col_map[OF rows6, of "''cost/task_budget''" "\<lambda>e. PFloat (np_div A (cost_of A p e) (task_budget_of p e))"]
    by (simp add: r1_def f6_def s6 f7_def c7_def H7_def)
  have s7: "set c7 = {''date'', ''task'', ''worker'', ''duration'', ''task_budget'', ''rate'',
      ''cost'', ''cost/task_budget''}"
    by (auto simp: c7_def s6)
  have cell7: "cell (H7 e) k = (if k \<in> set c7 then
       (if k = ''cost/task_budget'' then PFloat (np_div A (cost_of A p e) (task_budget_of p e))
        else cell (H6 e) k) else PNone)" for e k
    by (simp add: H7_def cell_mk_row)
  define r2 where "r2 = map (\<lambda>e. PFloat (np_div A (cost_of A p e) y)) es"
  have rows7: "rows f7 = map H7 es" by (simp add: f7_def)
  have cco7: "col f7 ''cost'' = Inr co"
    using col_map[OF _ rows7, of "''cost''"] by (simp add: f7_def s7 s6 cell7 cell6 co_def)
  have sds: "series_div_scalar A co (budget p) = Inr r2"
    using series_div_scalar_map[of es "\<lambda>e. PFloat (cost_of A p e)" A bu y] y
    by (simp add: co_def r2_def bp)
  define c8 where "c8 = c7 @ [''cost/project_budget'']"
  define H8 where "H8 = (\<lambda>e. mk_row c8 (\<lambda>k. if k = ''cost/project_budget''
       then PFloat (np_div A (cost_of A p e) y) else cell (H7 e) k))"
  have sc8: "set_col f7 ''cost/project_budget'' r2 =
      Inr \<lparr>columns = c8, rows = map H8 es, cats = [''worker'', ''task'']\<rparr>"
    using set_col_map[OF rows7, of "''cost/project_budget''" "\<lambda>e. PFloat (np_div A (cost_of A p e) y)"]
    by (simp add: r2_def f7_def s7 c8_def H8_def)
  have s8: "set c8 = {''date'', ''task'', ''worker'', ''duration'', ''task_budget'', ''rate'',
      ''cost'', ''cost/task_budget'', ''cost/project_budget''}"
    by (auto simp: c8_def s7)
  have cell8: "cell (H8 e) k = (if k \<in> set c8 then
       (if k = ''cost/project_budget'' then PFloat (np_div A (cost_of A p e) y)
        else cell (H7 e) k) else PNone)" for e k
    by (simp add: H8_def cell_mk_row)
  have cc: "compute_costs A p =
      Inr \<lparr>columns = c8, rows = map H8 (cost_order ts), cats = [''worker'', ''task'']\<rparr>"
    unfolding compute_costs_def
    by (simp add: ts m1[unfolded T_def] m2[unfolded W_def] a1 a2 r5 cdu cra sm sc6 cco ctb sd sc7 cco7 sds sc8 es_def)
  have cells: "cell (H8 e) ''date'' = cell e ''date'' \<and> cell (H8 e) ''task'' = cell e ''task'' \<and>
           cell (H8 e) ''worker'' = cell e ''worker'' \<and>
           cell (H8 e) ''duration'' = cell e ''duration'' \<and>
           cell (H8 e) ''rate'' = lookup (workers_df p) ''worker'' (cell e ''worker'') ''rate'' \<and>
           cell (H8 e) ''task_budget'' = lookup (tasks_df p) ''task'' (cell e ''task'') ''budget'' \<and>
           cell (H8 e) ''cost'' = PFloat (cost_of A p e) \<and>
           cell (H8 e) ''cost/task_budget'' = PFloat (np_div A (cost_of A p e) (task_budget_of p e)) \<and>
           cell (H8 e) ''cost/project_budget'' = PFloat (np_div A (cost_of A p e) y)" for e
    by (simp add: cell8 cell7 cell6 s8 s7 s6 d5 r5c t5 k5 T_def W_def)
  have fl: "\<forall>e\<in>set (rows ts). is_float (cell e ''duration'') \<and>
           \<not> is_null (cell e ''duration'') \<and>
           is_float (lookup (workers_df p) ''worker'' (cell e ''worker'') ''rate'') \<and>
           is_float (lookup (tasks_df p) ''task'' (cell e ''task'') ''budget'') \<and>
           (\<exists>w\<in>set (rows (workers_df p)). cell w ''worker'' = cell e ''worker'' \<and>
              (\<forall>c. lookup (workers_df p) ''worker'' (cell e ''worker'') c = cell w c)) \<and>
           (\<exists>t\<in>set (rows (tasks_df p)). cell t ''task'' = cell e ''task'' \<and>
              (\<forall>c. lookup (tasks_df p) ''task'' (cell e ''task'') c = cell t c))"
  proof (intro ballI conjI)
    fix e assume e: "e \<in> set (rows ts)"
    then have e': "e \<in> set es" by (simp add: ses)
    show "is_float (cell e ''duration'')" using fdu[OF e'] .
    show "\<not> is_null (cell e ''duration'')" using nnS e by blast
    show "is_float (lookup (workers_df p) ''worker'' (cell e ''worker'') ''rate'')"
      using fra[OF e'] by (simp add: W_def)
    show "is_float (lookup (tasks_df p) ''task'' (cell e ''task'') ''budget'')"
      using ftb[OF e'] by (simp add: T_def)
    have "cell e ''worker'' \<in> (\<lambda>r. cell r ''worker'') ` set (rows W)" using memW[OF e'] by simp
    from lookup_in[OF this]
    show "\<exists>w\<in>set (rows (workers_df p)). cell w ''worker'' = cell e ''worker'' \<and>
              (\<forall>c. lookup (workers_df p) ''worker'' (cell e ''worker'') c = cell w c)"
      by (simp add: W_def)
    have "cell e ''task'' \<in> (\<lambda>r. cell r ''task'') ` set (rows T)" using memT[OF e'] by simp
    from lookup_in[OF this]
    show "\<exists>t\<in>set (rows (tasks_df p)). cell t ''task'' = cell e ''task'' \<and>
              (\<forall>c. lookup (tasks_df p) ''task'' (cell e ''task'') c = cell t c)"
      by (simp add: T_def)
  qed
  have cellsA: "\<forall>e. cell (H8 e) ''date'' = cell e ''date'' \<and> cell (H8 e) ''task'' = cell e ''task'' \<and>
           cell (H8 e) ''worker'' = cell e ''worker'' \<and>
           cell (H8 e) ''duration'' = cell e ''duration'' \<and>
           cell (H8 e) ''rate'' = lookup (workers_df p) ''worker'' (cell e ''worker'') ''rate'' \<and>
           cell (H8 e) ''task_budget'' = lookup (tasks_df p) ''task'' (cell e ''task'') ''budget'' \<and>
           cell (H8 e) ''cost'' = PFloat (cost_of A p e) \<and>
           cell (H8 e) ''cost/task_budget'' = PFloat (np_div A (cost_of A p e) (task_budget_of p e)) \<and>
           cell (H8 e) ''cost/project_budget'' = PFloat (np_div A (cost_of A p e) y)"
    by (rule allI) (rule cells)
  have y': "to_num A (budget p) = Inr (PFloat y)" using y by (simp only: bp)
  show ?thesis
    unfolding is_cost_join_def
    by (rule exI[where x=c8], rule exI[where x=H8], rule exI[where x=y])
      (rule conjI[OF cc conjI[OF y' conjI[OF s8 conjI[OF cellsA fl]]]])
qed

lemma ex_costs_eval: "compute_costs exact ex_project = Inr ex_costs"
  by (simp add: compute_costs_def merge_def mk_row_def astype_category_def rename_col_def
      set_col_def col_def cell_def series_mul_def series_div_def series_div_scalar_def
      exact_def ex_costs_def ex_project_def ex_tasks_def ex_workers_def ex_timesheet_def)




section \<open>The summary with no grouping key (C5)\<close>

lemma series_sum_floats:
  "list_all is_float xs \<Longrightarrow> series_sum A xs = Inr (PFloat (np_sum A (skipna xs)))"
  by (simp add: series_sum_def)

text \<open>The sum of a column leaves the not-a-number out.\<close>

lemma series_sum_skips_nan:
  "series_sum exact [PFloat NaN, PFloat (Fin 256)] = Inr (PFloat (Fin 256))"
  by (simp add: series_sum_def skipna_def exact_def)

lemma exact_simps:
  "np_sum exact xs = foldl fadd (Fin 0) xs" "np_mul exact = fmul" "np_div exact = fdiv"
  "np_float exact i = Fin (of_int i)"
  by (simp_all add: exact_def)

lemma my_agg_eval:
  assumes c: "''duration'' \<in> set (columns grp)" "''rate'' \<in> set (columns grp)"
      "''cost'' \<in> set (columns grp)" "''task_budget'' \<in> set (columns grp)"
    and r: "rows grp = x # xs"
    and fd: "list_all is_float (map (\<lambda>r. cell r ''duration'') (rows grp))"
    and fc: "list_all is_float (map (\<lambda>r. cell r ''cost'') (rows grp))"
  shows "my_agg A grp = Inr
     [(''duration'', PFloat (np_sum A (skipna (map (\<lambda>r. cell r ''duration'') (rows grp))))),
      (''rate'', cell x ''rate''),
      (''cost'', PFloat (np_sum A (skipna (map (\<lambda>r. cell r ''cost'') (rows grp))))),
      (''task_budget'', cell x ''task_budget'')]"
proof -
  have i1: "iat0 (map (\<lambda>r. cell r ''rate'') (rows grp)) = Inr (cell x ''rate'')"
    by (simp add: r)
  have i2: "iat0 (map (\<lambda>r. cell r ''task_budget'') (rows grp)) = Inr (cell x ''task_budget'')"
    by (simp add: r)
  show ?thesis
    unfolding my_agg_def col_def
    by (simp only: c if_True sum.case series_sum_floats[OF fd] series_sum_floats[OF fc] i1 i2)
qed

lemma shape_total:
  assumes "to_num A (budget p) = Inr (PFloat y)"
  shows "shape_columns A p False False
       \<lparr>columns = [''duration'', ''rate'', ''cost'', ''task_budget''],
        rows = [[(''duration'', d), (''rate'', r), (''cost'', PFloat c), (''task_budget'', t)]],
        cats = []\<rparr>
     = Inr \<lparr>columns = [''duration'', ''cost'', ''cost/project_budget''],
            rows = [[(''duration'', d), (''cost'', PFloat c),
                     (''cost/project_budget'', PFloat (np_div A c y))]],
            cats = []\<rparr>"
  by (simp add: shape_columns_def drop_col_def col_def set_col_def series_div_scalar_def
      assms mk_row_def cell_def)

lemma cost_order_nonempty: "rows ts \<noteq> [] \<Longrightarrow> cost_order ts \<noteq> []"
proof -
  assume "rows ts \<noteq> []"
  then have "set (cost_order ts) \<noteq> {}" by (simp add: set_cost_order)
  then show ?thesis by auto
qed

text \<open>
  C5, as the code has it. For a project that was constructed, with a timesheet that is not
  empty and no repeated name in its tasks table and in its workers table, \<open>summarize\<close>
  with no grouping key returns exactly one row: the duration is the sum of the durations of
  all entries, the cost the sum of their costs (duration times the rate of the worker), and
  cost/project_budget this cost divided by the project budget. The sums are those
  \<open>Series.sum\<close> returns, of the entries in the order the join leaves them in
  (\<open>cost_order\<close>, every entry once); a cost that is not a number (an infinite duration at
  the rate 0) is skipped by the sum. (The claim says: for every project with a timesheet.
  A task named twice in the tasks table doubles its entries in the join, see below; the
  empty timesheet is left out.)
\<close>

theorem summarize_total:
  assumes init: "Project_init A nm ds cl bu cu ta wo ti = Inr p"
    and ts: "timesheet_df p = Some ts"
    and dT: "distinct (map (\<lambda>r. cell r ''task'') (rows (tasks_df p)))"
    and dW: "distinct (map (\<lambda>r. cell r ''worker'') (rows (workers_df p)))"
    and ne: "rows ts \<noteq> []"
  shows "\<exists>y. to_num A (budget p) = Inr (PFloat y) \<and>
     summarize A p False False None =
       Inr \<lparr>columns = [''duration'', ''cost'', ''cost/project_budget''],
            rows = [[(''duration'',
                        PFloat (np_sum A (map (\<lambda>e. the_flt (cell e ''duration'')) (cost_order ts)))),
                     (''cost'',
                        PFloat (np_sum A (filter (\<lambda>c. c \<noteq> NaN)
                                  (map (cost_of A p) (cost_order ts))))),
                     (''cost/project_budget'',
                        PFloat (np_div A (np_sum A (filter (\<lambda>c. c \<noteq> NaN)
                                  (map (cost_of A p) (cost_order ts)))) y))]],
            cats = []\<rparr>"
proof -
  from compute_costs_valid[OF init ts dT dW] obtain C G y where J: "is_cost_join A p ts C G y"
    by blast
  note cc = is_cost_join_frame[OF J] and y = is_cost_join_budget[OF J]
    and cells = is_cost_join_cells[OF J] and ent = is_cost_join_entries[OF J]
    and C = is_cost_join_columns[OF J]
  define es where "es = cost_order ts"
  define f where "f = \<lparr>columns = C, rows = map G es, cats = [''worker'', ''task'']\<rparr>"
  have ses: "set es = set (rows ts)" by (simp add: es_def set_cost_order)
  from cost_order_nonempty[OF ne] obtain e0 es' where es: "es = e0 # es'"
    unfolding es_def by (cases "cost_order ts") auto
  have rf: "rows f = G e0 # map G es'" by (simp add: f_def es)
  have dcol: "map (\<lambda>r. cell r ''duration'') (rows f) = map (\<lambda>e. cell e ''duration'') es"
    using cells by (simp add: f_def)
  have ccol: "map (\<lambda>r. cell r ''cost'') (rows f) = map (\<lambda>e. PFloat (cost_of A p e)) es"
    using cells by (simp add: f_def)
  have fd: "list_all is_float (map (\<lambda>r. cell r ''duration'') (rows f))"
    unfolding dcol using ent ses by (simp add: list_all_iff)
  have fc: "list_all is_float (map (\<lambda>r. cell r ''cost'') (rows f))"
    unfolding ccol by (simp add: list_all_iff)
  have cm: "''duration'' \<in> set (columns f)" "''rate'' \<in> set (columns f)"
      "''cost'' \<in> set (columns f)" "''task_budget'' \<in> set (columns f)"
    by (simp_all add: f_def C)
  have "skipna (map (\<lambda>e. cell e ''duration'') es) = map the_flt (map (\<lambda>e. cell e ''duration'') es)"
  proof (rule skipna_numbers)
    fix v assume "v \<in> set (map (\<lambda>e. cell e ''duration'') es)"
    then obtain e where e: "e \<in> set (rows ts)" "v = cell e ''duration''"
      using ses by auto
    show "is_float v \<and> \<not> is_null v" unfolding e(2) using ent[OF e(1)] by simp
  qed
  then have s1: "skipna (map (\<lambda>r. cell r ''duration'') (rows f))
          = map (\<lambda>e. the_flt (cell e ''duration'')) es"
    unfolding dcol by (simp add: o_def)
  have s2: "skipna (map (\<lambda>r. cell r ''cost'') (rows f))
          = filter (\<lambda>c. c \<noteq> NaN) (map (cost_of A p) es)"
    unfolding ccol by (simp add: skipna_def o_def)
  have ag: "my_agg A f = Inr
     [(''duration'', PFloat (np_sum A (map (\<lambda>e. the_flt (cell e ''duration'')) es))),
      (''rate'', cell (G e0) ''rate''),
      (''cost'', PFloat (np_sum A (filter (\<lambda>c. c \<noteq> NaN) (map (cost_of A p) es)))),
      (''task_budget'', cell (G e0) ''task_budget'')]"
    using my_agg_eval[OF cm rf fd fc] unfolding s1 s2 .
  have "summarize A p False False None =
       Inr \<lparr>columns = [''duration'', ''cost'', ''cost/project_budget''],
            rows = [[(''duration'',
                        PFloat (np_sum A (map (\<lambda>e. the_flt (cell e ''duration'')) es))),
                     (''cost'',
                        PFloat (np_sum A (filter (\<lambda>c. c \<noteq> NaN) (map (cost_of A p) es)))),
                     (''cost/project_budget'',
                        PFloat (np_div A (np_sum A (filter (\<lambda>c. c \<noteq> NaN)
                                  (map (cost_of A p) es))) y))]],
            cats = []\<rparr>"
    by (simp add: summarize_def ts cc[folded es_def, folded f_def] aggregate_def ag
        shape_total[OF y])
  with y show ?thesis unfolding es_def by blast
qed

theorem summarize_total_witness:
  "Project_init exact (Scalar (PStr ''Project A'')) (Scalar (PStr ''Pirates''))
     (Scalar (PStr ''Marine Police'')) (Scalar (PInt 4096)) (Scalar (PStr ''HKD''))
     (Frame ex_tasks) (Frame ex_workers) (Frame ex_timesheet) = Inr ex_project \<and>
   timesheet_df ex_project = Some ex_timesheet \<and>
   distinct (map (\<lambda>r. cell r ''task'') (rows (tasks_df ex_project))) \<and>
   distinct (map (\<lambda>r. cell r ''worker'') (rows (workers_df ex_project))) \<and>
   rows ex_timesheet \<noteq> [] \<and>
   (\<exists>y. to_num exact (budget ex_project) = Inr (PFloat y) \<and>
     summarize exact ex_project False False None =
       Inr \<lparr>columns = [''duration'', ''cost'', ''cost/project_budget''],
            rows = [[(''duration'',
                        PFloat (np_sum exact (map (\<lambda>e. the_flt (cell e ''duration''))
                                  (cost_order ex_timesheet)))),
                     (''cost'',
                        PFloat (np_sum exact (filter (\<lambda>c. c \<noteq> NaN)
                                  (map (cost_of exact ex_project) (cost_order ex_timesheet))))),
                     (''cost/project_budget'',
                        PFloat (np_div exact (np_sum exact (filter (\<lambda>c. c \<noteq> NaN)
                                  (map (cost_of exact ex_project) (cost_order ex_timesheet))))
                                  y))]],
            cats = []\<rparr>)"
proof -
  have t: "timesheet_df ex_project = Some ex_timesheet" by (simp add: ex_project_def)
  have dT: "distinct (map (\<lambda>r. cell r ''task'') (rows (tasks_df ex_project)))"
    by (simp add: ex_project_def ex_tasks_def cell_def)
  have dW: "distinct (map (\<lambda>r. cell r ''worker'') (rows (workers_df ex_project)))"
    by (simp add: ex_project_def ex_workers_def cell_def)
  have n: "rows ex_timesheet \<noteq> []" by (simp add: ex_timesheet_def)
  note X = summarize_total [OF ex_project_constructed t dT dW n]
  show ?thesis
    by (rule conjI[OF ex_project_constructed conjI[OF t conjI[OF dT conjI[OF dW conjI[OF n X]]]]])
qed

lemma ex_dup_project_constructed:
  "Project_init exact (Scalar (PStr ''Project A'')) (Scalar (PStr ''Pirates''))
     (Scalar (PStr ''Marine Police'')) (Scalar (PInt 4096)) (Scalar (PStr ''HKD''))
     (Frame ex_dup_tasks) (Frame ex_workers) (Frame ex_one_timesheet) = Inr ex_dup_project"
  by (simp add: Project_init_def check_tasks_df_def check_workers_df_def
      check_timesheet_df_def check_df_def check_df_header_def df_no_nans_def col_def
      cell_def exact_def skipna_def
      ex_dup_tasks_def ex_workers_def ex_one_timesheet_def ex_dup_project_def)

lemma ex_dup_total:
  "summarize exact ex_dup_project False False None =
     Inr \<lparr>columns = [''duration'', ''cost'', ''cost/project_budget''],
          rows = [[(''duration'', PFloat (Fin 6)), (''cost'', PFloat (Fin 768)),
                   (''cost/project_budget'', PFloat (Fin (3 / 16)))]],
            cats = []\<rparr>"
  by (simp add: summarize_def aggregate_def shape_columns_def my_agg_def series_sum_def
      compute_costs_def merge_def mk_row_def astype_category_def rename_col_def
      set_col_def drop_col_def col_def cell_def series_mul_def series_div_def
      series_div_scalar_def exact_def skipna_def
      ex_dup_project_def ex_dup_tasks_def ex_workers_def ex_one_timesheet_def)

text \<open>
  The claim fails where the tasks table names a task twice (its budgets sum to the project
  budget, so the project is constructed): the one entry of 3 hours at 128 an hour is
  summarised as 6 hours and a cost of 768.
\<close>

theorem summarize_total_duplicate_task:
  "Project_init exact (Scalar (PStr ''Project A'')) (Scalar (PStr ''Pirates''))
     (Scalar (PStr ''Marine Police'')) (Scalar (PInt 4096)) (Scalar (PStr ''HKD''))
     (Frame ex_dup_tasks) (Frame ex_workers) (Frame ex_one_timesheet) = Inr ex_dup_project \<and>
   timesheet_df ex_dup_project = Some ex_one_timesheet \<and>
   summarize exact ex_dup_project False False None =
     Inr \<lparr>columns = [''duration'', ''cost'', ''cost/project_budget''],
          rows = [[(''duration'', PFloat (Fin 6)), (''cost'', PFloat (Fin 768)),
                   (''cost/project_budget'', PFloat (Fin (3 / 16)))]],
            cats = []\<rparr> \<and>
   np_sum exact (map (\<lambda>e. the_flt (cell e ''duration'')) (rows ex_one_timesheet)) = Fin 3 \<and>
   np_sum exact (map (cost_of exact ex_dup_project) (rows ex_one_timesheet)) = Fin 384"
proof -
  have t: "timesheet_df ex_dup_project = Some ex_one_timesheet"
    by (simp add: ex_dup_project_def)
  have d: "np_sum exact (map (\<lambda>e. the_flt (cell e ''duration'')) (rows ex_one_timesheet)) = Fin 3"
    by (simp add: ex_one_timesheet_def cell_def exact_def)
  have c: "np_sum exact (map (cost_of exact ex_dup_project) (rows ex_one_timesheet)) = Fin 384"
    by (simp add: ex_one_timesheet_def ex_dup_project_def ex_workers_def cost_of_def
        rate_of_def lookup_def cell_def exact_def)
  show ?thesis
    by (rule conjI[OF ex_dup_project_constructed conjI[OF t conjI[OF ex_dup_total conjI[OF d c]]]])
qed

text \<open>
  The empty timesheet passes the checks (\<open>df_nonempty\<close> is never called), and the summary
  with no grouping key then fails: \<open>my_agg\<close> reads the first rate of a frame without rows.
\<close>

lemma ex_empty_total:
  "Project_init exact (Scalar (PStr ''Project A'')) (Scalar (PStr ''Pirates''))
     (Scalar (PStr ''Marine Police'')) (Scalar (PInt 4096)) (Scalar (PStr ''HKD''))
     (Frame ex_tasks) (Frame ex_workers) (Frame ex_empty_timesheet) = Inr ex_empty_project \<and>
   summarize exact ex_empty_project False False None = Inl IndexError"
  by (simp add: Project_init_def check_tasks_df_def check_workers_df_def
      check_timesheet_df_def check_df_def check_df_header_def df_no_nans_def
      summarize_def aggregate_def my_agg_def series_sum_def
      compute_costs_def merge_def mk_row_def astype_category_def rename_col_def
      set_col_def col_def cell_def series_mul_def series_div_def
      series_div_scalar_def exact_def skipna_def
      ex_empty_project_def ex_tasks_def ex_workers_def ex_empty_timesheet_def)

text \<open>The summary of the sample project.\<close>

lemma ex_total:
  "summarize exact ex_project False False None =
     Inr \<lparr>columns = [''duration'', ''cost'', ''cost/project_budget''],
        rows =
          [[(''duration'', PFloat (Fin 6)), (''cost'', PFloat (Fin 576)),
            (''cost/project_budget'', PFloat (Fin (9 / 64)))]],
            cats = []\<rparr>"
proof -
  have t: "timesheet_df ex_project = Some ex_timesheet"
    and b: "budget ex_project = Scalar (PInt 4096)"
    by (simp_all add: ex_project_def)
  show ?thesis
    by (simp add: summarize_def aggregate_def shape_columns_def my_agg_def series_sum_def
      t b ex_costs_eval ex_costs_def drop_col_def set_col_def col_def cell_def mk_row_def
      series_div_scalar_def exact_simps skipna_def)
qed

text \<open>
  A cost that is not a number is left out of the total: the project with an entry of
  infinite duration at the rate 0 is constructed, and its total cost is that of its other
  entry, 4 hours at 64 an hour.
\<close>

lemma ex_inf_total:
  "Project_init exact (Scalar (PStr ''Project A'')) (Scalar (PStr ''Pirates''))
     (Scalar (PStr ''Marine Police'')) (Scalar (PInt 4096)) (Scalar (PStr ''HKD''))
     (Frame ex_tasks) (Frame ex_zero_workers) (Frame ex_inf_timesheet) = Inr ex_inf_project \<and>
   map (cost_of exact ex_inf_project) (cost_order ex_inf_timesheet) = [NaN, Fin 256] \<and>
   summarize exact ex_inf_project False False None =
     Inr \<lparr>columns = [''duration'', ''cost'', ''cost/project_budget''],
          rows = [[(''duration'', PFloat PInf), (''cost'', PFloat (Fin 256)),
                   (''cost/project_budget'', PFloat (Fin (1 / 16)))]],
          cats = []\<rparr>"
proof -
  have a: "Project_init exact (Scalar (PStr ''Project A'')) (Scalar (PStr ''Pirates''))
     (Scalar (PStr ''Marine Police'')) (Scalar (PInt 4096)) (Scalar (PStr ''HKD''))
     (Frame ex_tasks) (Frame ex_zero_workers) (Frame ex_inf_timesheet) = Inr ex_inf_project"
    by (simp add: Project_init_def check_tasks_df_def check_workers_df_def
      check_timesheet_df_def check_df_def check_df_header_def df_no_nans_def col_def
      cell_def exact_def skipna_def
      ex_tasks_def ex_zero_workers_def ex_inf_timesheet_def ex_inf_project_def)
  have b: "map (cost_of exact ex_inf_project) (cost_order ex_inf_timesheet) = [NaN, Fin 256]"
    by (simp add: cost_order_def cost_of_def rate_of_def lookup_def cell_def exact_simps
      ex_inf_project_def ex_zero_workers_def ex_inf_timesheet_def)
  have c: "summarize exact ex_inf_project False False None =
     Inr \<lparr>columns = [''duration'', ''cost'', ''cost/project_budget''],
          rows = [[(''duration'', PFloat PInf), (''cost'', PFloat (Fin 256)),
                   (''cost/project_budget'', PFloat (Fin (1 / 16)))]],
          cats = []\<rparr>"
    by (simp add: summarize_def aggregate_def shape_columns_def my_agg_def series_sum_def
      compute_costs_def merge_def mk_row_def astype_category_def rename_col_def
      set_col_def drop_col_def col_def cell_def series_mul_def series_div_def
      series_div_scalar_def exact_def skipna_def
      ex_inf_project_def ex_tasks_def ex_zero_workers_def ex_inf_timesheet_def)
  show ?thesis by (rule conjI[OF a conjI[OF b c]])
qed

section \<open>The columns of a summary (C6)\<close>






lemma mapE_set: "mapE h xs = Inr ys \<Longrightarrow> y \<in> set ys \<Longrightarrow> \<exists>x\<in>set xs. h x = Inr y"
  by (induction xs arbitrary: ys) (auto split: sum.splits)

lemma set_insert_val: "set (insert_val v xs) = insert v (set xs)"
  by (induction xs) auto

lemma set_categories: "set (categories vs) = set vs"
proof -
  have "set (foldr insert_val xs []) = set xs" for xs
    by (induction xs) (simp_all add: set_insert_val)
  then show ?thesis by (simp add: categories_def)
qed







lemma length_group_key:
  "length (group_key freq by_task by_worker x) = length (key_cols freq by_task by_worker)"
  by (cases freq) (simp_all add: group_key_def key_cols_def)









text \<open>
  On the cost rows the groups are the combinations of the values of the key columns: a
  lone key column has its values, and among two or three there is a category.
\<close>

lemma group_keys_product:
  assumes "''task'' \<in> set (cats f)" and "''worker'' \<in> set (cats f)"
  shows "group_keys (key_cols freq by_task by_worker) kf lv f = product_lists lv"
  using assms by (cases freq) (auto simp: group_keys_def key_cols_def)












lemma cell_zip_append: "c \<notin> set kc \<Longrightarrow> cell (zip kc k @ a) c = cell a c"
proof -
  assume "c \<notin> set kc"
  then have "c \<notin> fst ` set (zip kc k)" by (auto dest: set_zip_leftD)
  then have "map_of (zip kc k) c = None" by (simp add: map_of_eq_None_iff)
  then show ?thesis by (simp add: cell_def map_add_def)
qed

lemma key_cols_subset: "set (key_cols freq by_task by_worker) \<subseteq> {''date'', ''task'', ''worker''}"
  by (cases freq) (auto simp: key_cols_def)

lemma mapE_Inr_ex: "(\<And>x. x \<in> set xs \<Longrightarrow> \<exists>y. h x = Inr y \<and> P y) \<Longrightarrow>
   \<exists>ys. mapE h xs = Inr ys \<and> (\<forall>y\<in>set ys. P y)"
proof (induction xs)
  case Nil
  then show ?case by simp
next
  case (Cons a xs)
  from Cons.prems[of a] obtain y where y: "h a = Inr y" "P y" by auto
  from Cons.IH Cons.prems obtain ys where ys: "mapE h xs = Inr ys" "\<forall>y\<in>set ys. P y"
    by auto
  show ?case using y ys by simp
qed

lemma shape_columns_returns:
  assumes y: "to_num A (budget p) = Inr (PFloat y)"
    and c: "''cost'' \<in> set (columns ga)" "''task_budget'' \<in> set (columns ga)"
       "''rate'' \<in> set (columns ga)"
    and fl: "\<And>r. r \<in> set (rows ga) \<Longrightarrow> is_float (cell r ''cost'') \<and> is_float (cell r ''task_budget'')"
  shows "\<exists>g. shape_columns A p by_task by_worker ga = Inr g"
proof -
  define rs where "rs = rows ga"
  have rga: "rows ga = map (\<lambda>r. r) rs" by (simp add: rs_def)
  have fl': "\<And>r. r \<in> set rs \<Longrightarrow> is_float (cell r ''cost'') \<and> is_float (cell r ''task_budget'')"
    using fl by (simp add: rs_def)
  have "\<exists>g2. (if by_task then
           (case col ga ''cost'' of Inl e \<Rightarrow> Inl e | Inr c1 \<Rightarrow>
           (case col ga ''task_budget'' of Inl e \<Rightarrow> Inl e | Inr tb \<Rightarrow>
           (case series_div A c1 tb of Inl e \<Rightarrow> Inl e | Inr r1 \<Rightarrow>
           (case set_col ga ''cost/task_budget'' r1 of Inl e \<Rightarrow> Inl e | Inr g1 \<Rightarrow>
           (case col g1 ''cost'' of Inl e \<Rightarrow> Inl e | Inr c2 \<Rightarrow>
           (case series_div_scalar A c2 (budget p) of Inl e \<Rightarrow> Inl e | Inr r2 \<Rightarrow>
              set_col g1 ''cost/project_budget'' r2))))))
         else
           (case drop_col ga ''task_budget'' of Inl e \<Rightarrow> Inl e | Inr g1 \<Rightarrow>
           (case col g1 ''cost'' of Inl e \<Rightarrow> Inl e | Inr c2 \<Rightarrow>
           (case series_div_scalar A c2 (budget p) of Inl e \<Rightarrow> Inl e | Inr r2 \<Rightarrow>
              set_col g1 ''cost/project_budget'' r2)))) = Inr g2 \<and> ''rate'' \<in> set (columns g2)"
  proof (cases by_task)
    case True
    define C1 where "C1 = (if ''cost/task_budget'' \<in> set (columns ga) then columns ga
                           else columns ga @ [''cost/task_budget''])"
    define H1 where "H1 = (\<lambda>r. mk_row C1 (\<lambda>k. if k = ''cost/task_budget''
      then PFloat (np_div A (the_flt (cell r ''cost'')) (the_flt (cell r ''task_budget''))) else cell r k))"
    define g1 where "g1 = \<lparr>columns = C1, rows = map H1 rs,
                           cats = removeAll ''cost/task_budget'' (cats ga)\<rparr>"
    have k1: "col ga ''cost'' = Inr (map (\<lambda>r. cell r ''cost'') rs)"
      using col_map[OF c(1) rga] .
    have k2: "col ga ''task_budget'' = Inr (map (\<lambda>r. cell r ''task_budget'') rs)"
      using col_map[OF c(2) rga] .
    have k3: "series_div A (map (\<lambda>r. cell r ''cost'') rs) (map (\<lambda>r. cell r ''task_budget'') rs)
        = Inr (map (\<lambda>r. PFloat (np_div A (the_flt (cell r ''cost'')) (the_flt (cell r ''task_budget'')))) rs)"
      by (rule series_div_map) (use fl' in blast)
    have k4: "set_col ga ''cost/task_budget''
        (map (\<lambda>r. PFloat (np_div A (the_flt (cell r ''cost'')) (the_flt (cell r ''task_budget'')))) rs)
        = Inr g1"
      using set_col_map[OF rga, of "''cost/task_budget''"
        "\<lambda>r. PFloat (np_div A (the_flt (cell r ''cost'')) (the_flt (cell r ''task_budget'')))"]
      by (simp add: g1_def C1_def H1_def)
    have m1: "''cost'' \<in> set C1" "''rate'' \<in> set C1" using c by (auto simp: C1_def)
    have rg1: "rows g1 = map H1 rs" by (simp add: g1_def)
    have cc1: "cell (H1 r) ''cost'' = cell r ''cost''" for r
      using m1 by (simp add: H1_def cell_mk_row)
    have k5: "col g1 ''cost'' = Inr (map (\<lambda>r. cell r ''cost'') rs)"
      using col_map[OF _ rg1, of "''cost''"] m1 by (simp add: g1_def cc1)
    have k6: "series_div_scalar A (map (\<lambda>r. cell r ''cost'') rs) (budget p)
        = Inr (map (\<lambda>r. PFloat (np_div A (the_flt (cell r ''cost'')) y)) rs)"
      by (rule series_div_scalar_map[OF _ y]) (use fl' in blast)
    define C2 where "C2 = (if ''cost/project_budget'' \<in> set C1 then C1
                           else C1 @ [''cost/project_budget''])"
    have k7: "set_col g1 ''cost/project_budget''
        (map (\<lambda>r. PFloat (np_div A (the_flt (cell r ''cost'')) y)) rs)
        = Inr \<lparr>columns = C2, rows = map (\<lambda>r. mk_row C2 (\<lambda>k. if k = ''cost/project_budget''
             then PFloat (np_div A (the_flt (cell r ''cost'')) y) else cell (H1 r) k)) rs,
             cats = removeAll ''cost/project_budget'' (cats g1)\<rparr>"
      using set_col_map[OF rg1, of "''cost/project_budget''"
        "\<lambda>r. PFloat (np_div A (the_flt (cell r ''cost'')) y)"]
      by (simp add: g1_def C2_def)
    have "''rate'' \<in> set C2" using m1 by (auto simp: C2_def)
    then show ?thesis using True by (simp add: k1 k2 k3 k4 k5 k6 k7)
  next
    case False
    define C1 where "C1 = removeAll ''task_budget'' (columns ga)"
    define H1 where "H1 = (\<lambda>r. mk_row C1 (cell r))"
    define g1 where "g1 = \<lparr>columns = C1, rows = map H1 rs,
                           cats = removeAll ''task_budget'' (cats ga)\<rparr>"
    have k1: "drop_col ga ''task_budget'' = Inr g1"
      using c(2) by (simp add: drop_col_def g1_def C1_def H1_def rs_def)
    have m1: "''cost'' \<in> set C1" "''rate'' \<in> set C1" using c by (auto simp: C1_def)
    have rg1: "rows g1 = map H1 rs" by (simp add: g1_def)
    have cc1: "cell (H1 r) ''cost'' = cell r ''cost''" for r
      using m1 by (simp add: H1_def cell_mk_row)
    have k5: "col g1 ''cost'' = Inr (map (\<lambda>r. cell r ''cost'') rs)"
      using col_map[OF _ rg1, of "''cost''"] m1 by (simp add: g1_def cc1)
    have k6: "series_div_scalar A (map (\<lambda>r. cell r ''cost'') rs) (budget p)
        = Inr (map (\<lambda>r. PFloat (np_div A (the_flt (cell r ''cost'')) y)) rs)"
      by (rule series_div_scalar_map[OF _ y]) (use fl' in blast)
    define C2 where "C2 = (if ''cost/project_budget'' \<in> set C1 then C1
                           else C1 @ [''cost/project_budget''])"
    have k7: "set_col g1 ''cost/project_budget''
        (map (\<lambda>r. PFloat (np_div A (the_flt (cell r ''cost'')) y)) rs)
        = Inr \<lparr>columns = C2, rows = map (\<lambda>r. mk_row C2 (\<lambda>k. if k = ''cost/project_budget''
             then PFloat (np_div A (the_flt (cell r ''cost'')) y) else cell (H1 r) k)) rs,
             cats = removeAll ''cost/project_budget'' (cats g1)\<rparr>"
      using set_col_map[OF rg1, of "''cost/project_budget''"
        "\<lambda>r. PFloat (np_div A (the_flt (cell r ''cost'')) y)"]
      by (simp add: g1_def C2_def)
    have "''rate'' \<in> set C2" using m1 by (auto simp: C2_def)
    then show ?thesis using False by (simp add: k1 k5 k6 k7)
  qed
  then obtain g2 where g2: "(if by_task then
           (case col ga ''cost'' of Inl e \<Rightarrow> Inl e | Inr c1 \<Rightarrow>
           (case col ga ''task_budget'' of Inl e \<Rightarrow> Inl e | Inr tb \<Rightarrow>
           (case series_div A c1 tb of Inl e \<Rightarrow> Inl e | Inr r1 \<Rightarrow>
           (case set_col ga ''cost/task_budget'' r1 of Inl e \<Rightarrow> Inl e | Inr g1 \<Rightarrow>
           (case col g1 ''cost'' of Inl e \<Rightarrow> Inl e | Inr c2 \<Rightarrow>
           (case series_div_scalar A c2 (budget p) of Inl e \<Rightarrow> Inl e | Inr r2 \<Rightarrow>
              set_col g1 ''cost/project_budget'' r2))))))
         else
           (case drop_col ga ''task_budget'' of Inl e \<Rightarrow> Inl e | Inr g1 \<Rightarrow>
           (case col g1 ''cost'' of Inl e \<Rightarrow> Inl e | Inr c2 \<Rightarrow>
           (case series_div_scalar A c2 (budget p) of Inl e \<Rightarrow> Inl e | Inr r2 \<Rightarrow>
              set_col g1 ''cost/project_budget'' r2)))) = Inr g2" and r: "''rate'' \<in> set (columns g2)"
    by blast
  show ?thesis
    unfolding shape_columns_def g2 using r by (simp add: drop_col_def)
qed

lemma groupby_apply_returns:
  assumes c: "''duration'' \<in> set (columns f)" "''rate'' \<in> set (columns f)"
      "''cost'' \<in> set (columns f)" "''task_budget'' \<in> set (columns f)"
    and ne: "rows f \<noteq> []"
    and fl: "\<And>x. x \<in> set (rows f) \<Longrightarrow> is_float (cell x ''duration'') \<and> is_float (cell x ''cost'') \<and>
               is_float (cell x ''task_budget'')"
    and kc: "set kc \<subseteq> {''date'', ''task'', ''worker''}"
    and gk: "group_keys kc kf lv f = product_lists lv"
    and one: "\<And>k. \<not> 1 < length kc \<Longrightarrow> k \<in> set (product_lists lv) \<Longrightarrow>
               filter (\<lambda>r. kf r = k) (rows f) \<noteq> []"
  shows "\<exists>ga. groupby_apply A kc kf lv f = Inr ga \<and>
     ''cost'' \<in> set (columns ga) \<and> ''task_budget'' \<in> set (columns ga) \<and>
     ''rate'' \<in> set (columns ga) \<and>
     (\<forall>r\<in>set (rows ga). is_float (cell r ''cost'') \<and> is_float (cell r ''task_budget''))"
proof -
  define h where "h = (\<lambda>k. if filter (\<lambda>r. kf r = k) (rows f) = [] \<and> 1 < length kc
                        then Inr (zip kc k @ nan_agg)
                        else (case my_agg A (f\<lparr>rows := filter (\<lambda>r. kf r = k) (rows f)\<rparr>) of
                                Inl e \<Rightarrow> Inl e
                              | Inr a \<Rightarrow> Inr (zip kc k @ a)))"
  have nk: "''cost'' \<notin> set kc" "''task_budget'' \<notin> set kc" using kc by auto
  have each: "\<exists>r. h k = Inr r \<and> is_float (cell r ''cost'') \<and> is_float (cell r ''task_budget'')"
    if k: "k \<in> set (product_lists lv)" for k
  proof (cases "filter (\<lambda>r. kf r = k) (rows f) = [] \<and> 1 < length kc")
    case True
    then have "h k = Inr (zip kc k @ nan_agg)" by (simp add: h_def)
    moreover have "is_float (cell nan_agg ''cost'')" "is_float (cell nan_agg ''task_budget'')"
      by (simp_all add: nan_agg_def cell_def)
    ultimately show ?thesis using nk by (simp add: cell_zip_append)
  next
    case False
    define grp where "grp = f\<lparr>rows := filter (\<lambda>r. kf r = k) (rows f)\<rparr>"
    have "rows grp \<noteq> []"
    proof
      assume e: "rows grp = []"
      then have "\<not> 1 < length kc" using False by (simp add: grp_def)
      from one[OF this k] e show False by (simp add: grp_def)
    qed
    then obtain x xs where gx: "rows grp = x # xs" by (cases "rows grp") auto
    have sub: "set (rows grp) \<subseteq> set (rows f)" by (auto simp: grp_def)
    have cg: "''duration'' \<in> set (columns grp)" "''rate'' \<in> set (columns grp)"
      "''cost'' \<in> set (columns grp)" "''task_budget'' \<in> set (columns grp)"
      using c by (simp_all add: grp_def)
    have fd: "list_all is_float (map (\<lambda>r. cell r ''duration'') (rows grp))"
      using fl sub by (auto simp: list_all_iff)
    have fc: "list_all is_float (map (\<lambda>r. cell r ''cost'') (rows grp))"
      using fl sub by (auto simp: list_all_iff)
    note ma = my_agg_eval[OF cg gx fd fc]
    have xin: "x \<in> set (rows f)" using gx sub by auto
    define a where "a = [(''duration'', PFloat (np_sum A (skipna (map (\<lambda>r. cell r ''duration'') (rows grp))))),
      (''rate'', cell x ''rate''),
      (''cost'', PFloat (np_sum A (skipna (map (\<lambda>r. cell r ''cost'') (rows grp))))),
      (''task_budget'', cell x ''task_budget'')]"
    have nc: "(filter (\<lambda>r. kf r = k) (rows f) = [] \<and> 1 < length kc) = False"
      using False by simp
    have hk: "h k = Inr (zip kc k @ a)"
      unfolding h_def nc using ma by (simp add: grp_def a_def)
    have "is_float (cell a ''cost'')" by (simp add: a_def cell_def)
    moreover have "is_float (cell a ''task_budget'')" using fl[OF xin] by (simp add: a_def cell_def)
    ultimately show ?thesis using hk nk by (simp add: cell_zip_append)
  qed
  from mapE_Inr_ex[of "product_lists lv" h
      "\<lambda>r. is_float (cell r ''cost'') \<and> is_float (cell r ''task_budget'')", OF each]
  obtain rs where rs: "mapE h (product_lists lv) = Inr rs"
    "\<forall>r\<in>set rs. is_float (cell r ''cost'') \<and> is_float (cell r ''task_budget'')"
    by blast
  have "groupby_apply A kc kf lv f =
      Inr \<lparr>columns = kc @ [''duration'', ''rate'', ''cost'', ''task_budget''], rows = rs,
           cats = filter (\<lambda>c. c \<in> set (cats f)) kc\<rparr>"
    unfolding groupby_apply_def h_def[symmetric] gk using ne rs(1) by simp
  then show ?thesis using rs(2) by simp
qed

text \<open>
  With one key column every value of it has a row to aggregate: a category is a value of
  the column, and a period has one when no period between the first and the last day is
  without a row.
\<close>

lemma single_key_groups:
  assumes s: "\<not> 1 < length (key_cols freq by_task by_worker)"
    and k: "k \<in> set (product_lists (key_levels freq by_task by_worker f))"
    and ne: "rows f \<noteq> []"
    and gap: "\<And>b v. freq = Some b \<Longrightarrow> \<not> by_task \<Longrightarrow> \<not> by_worker \<Longrightarrow>
        v \<in> set (periods b (map (\<lambda>r. cell r ''date'') (rows f))) \<Longrightarrow>
        \<exists>x\<in>set (rows f). bucket b (cell x ''date'') = v"
  shows "filter (\<lambda>r. group_key freq by_task by_worker r = k) (rows f) \<noteq> []"
proof (cases freq)
  case None
  show ?thesis
  proof (cases by_task)
    case True
    with s None have nw: "\<not> by_worker" by (auto simp: key_cols_def)
    from k obtain v where v: "k = [v]" "v \<in> set (map (\<lambda>r. cell r ''task'') (rows f))"
      using None True nw by (auto simp: key_levels_def set_categories)
    then obtain x where "x \<in> set (rows f)" "cell x ''task'' = v" by auto
    then show ?thesis using None True nw v(1)
      by (auto simp: filter_empty_conv group_key_def)
  next
    case False
    show ?thesis
    proof (cases by_worker)
      case True
      from k obtain v where v: "k = [v]" "v \<in> set (map (\<lambda>r. cell r ''worker'') (rows f))"
        using None True False by (auto simp: key_levels_def set_categories)
      then obtain x where "x \<in> set (rows f)" "cell x ''worker'' = v" by auto
      then show ?thesis using None True False v(1)
        by (auto simp: filter_empty_conv group_key_def)
    next
      case nw: False
      from k have "k = []" using None False nw by (simp add: key_levels_def)
      then show ?thesis using None False nw ne by (simp add: group_key_def)
    qed
  qed
next
  case (Some b)
  with s have nk: "\<not> by_task" "\<not> by_worker" by (auto simp: key_cols_def split: if_splits)
  from k obtain v where v: "k = [v]" "v \<in> set (periods b (map (\<lambda>r. cell r ''date'') (rows f)))"
    using Some nk by (auto simp: key_levels_def)
  from gap[OF Some nk v(2)] obtain x where "x \<in> set (rows f)" "bucket b (cell x ''date'') = v"
    by blast
  then show ?thesis using Some nk v(1)
    by (auto simp: filter_empty_conv group_key_def)
qed

lemma aggregate_returns:
  assumes c: "''duration'' \<in> set (columns f)" "''rate'' \<in> set (columns f)"
      "''cost'' \<in> set (columns f)" "''task_budget'' \<in> set (columns f)"
      "''date'' \<in> set (columns f)"
    and ct: "''task'' \<in> set (cats f)" "''worker'' \<in> set (cats f)"
    and ne: "rows f \<noteq> []"
    and fl: "\<And>x. x \<in> set (rows f) \<Longrightarrow> is_float (cell x ''duration'') \<and> is_float (cell x ''cost'') \<and>
               is_float (cell x ''task_budget'')"
    and dt: "freq \<noteq> None \<longrightarrow> list_all is_date (map (\<lambda>r. cell r ''date'') (rows f))"
    and gap: "\<And>b v. freq = Some b \<Longrightarrow> \<not> by_task \<Longrightarrow> \<not> by_worker \<Longrightarrow>
        v \<in> set (periods b (map (\<lambda>r. cell r ''date'') (rows f))) \<Longrightarrow>
        \<exists>x\<in>set (rows f). bucket b (cell x ''date'') = v"
  shows "\<exists>ga. aggregate A by_task by_worker freq f = Inr ga \<and>
     ''cost'' \<in> set (columns ga) \<and> ''task_budget'' \<in> set (columns ga) \<and>
     ''rate'' \<in> set (columns ga) \<and>
     (\<forall>r\<in>set (rows ga). is_float (cell r ''cost'') \<and> is_float (cell r ''task_budget''))"
proof (cases "freq = None \<and> \<not> by_task \<and> \<not> by_worker")
  case True
  from ne obtain x xs where gx: "rows f = x # xs" by (cases "rows f") auto
  have fd: "list_all is_float (map (\<lambda>r. cell r ''duration'') (rows f))"
    using fl by (auto simp: list_all_iff)
  have fc: "list_all is_float (map (\<lambda>r. cell r ''cost'') (rows f))"
    using fl by (auto simp: list_all_iff)
  note ma = my_agg_eval[OF c(1-4) gx fd fc]
  have "is_float (cell x ''task_budget'')" using fl[of x] gx by simp
  then show ?thesis using True by (simp add: aggregate_def ma cell_def)
next
  case False
  have G: "\<exists>ga. groupby_apply A (key_cols freq by_task by_worker)
        (group_key freq by_task by_worker) (key_levels freq by_task by_worker f) f = Inr ga \<and>
     ''cost'' \<in> set (columns ga) \<and> ''task_budget'' \<in> set (columns ga) \<and>
     ''rate'' \<in> set (columns ga) \<and>
     (\<forall>r\<in>set (rows ga). is_float (cell r ''cost'') \<and> is_float (cell r ''task_budget''))"
  proof (rule groupby_apply_returns[OF c(1-4) ne _ key_cols_subset group_keys_product[OF ct]])
    fix x assume "x \<in> set (rows f)"
    then show "is_float (cell x ''duration'') \<and> is_float (cell x ''cost'') \<and>
               is_float (cell x ''task_budget'')" by (rule fl)
  next
    fix k assume a: "\<not> 1 < length (key_cols freq by_task by_worker)"
      "k \<in> set (product_lists (key_levels freq by_task by_worker f))"
    show "filter (\<lambda>r. group_key freq by_task by_worker r = k) (rows f) \<noteq> []"
      using a ne gap by (rule single_key_groups)
  qed
  show ?thesis
  proof (cases freq)
    case None
    with False have "by_task \<or> by_worker" by simp
    then have "aggregate A by_task by_worker freq f =
        groupby_apply A (key_cols freq by_task by_worker) (group_key freq by_task by_worker)
          (key_levels freq by_task by_worker f) f"
      using None by (simp add: aggregate_def)
    then show ?thesis using G by simp
  next
    case (Some b)
    then have "aggregate A by_task by_worker freq f =
        groupby_apply A (key_cols freq by_task by_worker) (group_key freq by_task by_worker)
          (key_levels freq by_task by_worker f) f"
      using dt c(5) by (simp add: aggregate_def col_def)
    then show ?thesis using G by simp
  qed
qed

text \<open>
  \<open>summarize\<close> does return a frame: for every project that was constructed, with a timesheet
  that is not empty and no repeated name in its tasks table and in its workers table; when
  a frequency is given, the date column of the timesheet holds timestamps, and when the
  frequency is the only key, no period between the first and the last day is without an
  entry.
\<close>

lemma summarize_returns:
  assumes init: "Project_init A nm ds cl bu cu ta wo ti = Inr p"
    and ts: "timesheet_df p = Some ts"
    and dT: "distinct (map (\<lambda>r. cell r ''task'') (rows (tasks_df p)))"
    and dW: "distinct (map (\<lambda>r. cell r ''worker'') (rows (workers_df p)))"
    and ne: "rows ts \<noteq> []"
    and dt: "freq \<noteq> None \<longrightarrow> list_all is_date (map (\<lambda>e. cell e ''date'') (rows ts))"
    and gap: "\<And>b v. freq = Some b \<Longrightarrow> \<not> by_task \<Longrightarrow> \<not> by_worker \<Longrightarrow>
        v \<in> set (periods b (map (\<lambda>e. cell e ''date'') (rows ts))) \<Longrightarrow>
        \<exists>e\<in>set (rows ts). bucket b (cell e ''date'') = v"
  shows "\<exists>g. summarize A p by_task by_worker freq = Inr g"
proof -
  from compute_costs_valid[OF init ts dT dW] obtain C G y where J: "is_cost_join A p ts C G y"
    by blast
  note cc = is_cost_join_frame[OF J] and y = is_cost_join_budget[OF J]
    and cells = is_cost_join_cells[OF J] and ent = is_cost_join_entries[OF J]
    and C = is_cost_join_columns[OF J]
  define f where "f = \<lparr>columns = C, rows = map G (cost_order ts), cats = [''worker'', ''task'']\<rparr>"
  have cm: "''duration'' \<in> set (columns f)" "''rate'' \<in> set (columns f)"
      "''cost'' \<in> set (columns f)" "''task_budget'' \<in> set (columns f)"
      "''date'' \<in> set (columns f)"
    by (simp_all add: f_def C)
  have ct: "''task'' \<in> set (cats f)" "''worker'' \<in> set (cats f)" by (simp_all add: f_def)
  have nf: "rows f \<noteq> []" using cost_order_nonempty[OF ne] by (simp add: f_def)
  have fl: "is_float (cell x ''duration'') \<and> is_float (cell x ''cost'') \<and>
               is_float (cell x ''task_budget'')" if "x \<in> set (rows f)" for x
  proof -
    from that obtain e where e: "e \<in> set (rows ts)" "x = G e"
      by (auto simp: f_def set_cost_order)
    show ?thesis unfolding e(2) using cells[of e] ent[OF e(1)] by simp
  qed
  have dates: "set (map (\<lambda>r. cell r ''date'') (rows f)) = set (map (\<lambda>e. cell e ''date'') (rows ts))"
    using cells by (simp add: f_def o_def set_cost_order image_image)
  have dd: "freq \<noteq> None \<longrightarrow> list_all is_date (map (\<lambda>r. cell r ''date'') (rows f))"
    using dt dates by (simp add: list_all_iff)
  have pe: "periods b (map (\<lambda>r. cell r ''date'') (rows f))
      = periods b (map (\<lambda>e. cell e ''date'') (rows ts))" for b
  proof -
    have "set (map the_day (map (\<lambda>r. cell r ''date'') (rows f)))
        = set (map the_day (map (\<lambda>e. cell e ''date'') (rows ts)))"
      using dates by (simp only: set_map)
    then show ?thesis by (simp only: periods_def)
  qed
  have gf: "\<exists>x\<in>set (rows f). bucket b (cell x ''date'') = v"
    if "freq = Some b" "\<not> by_task" "\<not> by_worker"
      "v \<in> set (periods b (map (\<lambda>r. cell r ''date'') (rows f)))" for b v
  proof -
    from gap[OF that(1-3) that(4)[unfolded pe]] obtain e where
      e: "e \<in> set (rows ts)" "bucket b (cell e ''date'') = v" by blast
    have "G e \<in> set (rows f)" using e(1) by (simp add: f_def set_cost_order)
    moreover have "bucket b (cell (G e) ''date'') = v" using e(2) cells[of e] by simp
    ultimately show ?thesis by blast
  qed
  from aggregate_returns[OF cm ct nf fl dd gf, of by_task by_worker] obtain ga where
    ga: "aggregate A by_task by_worker freq f = Inr ga"
      "''cost'' \<in> set (columns ga)" "''task_budget'' \<in> set (columns ga)"
      "''rate'' \<in> set (columns ga)"
      "\<And>r. r \<in> set (rows ga) \<Longrightarrow> is_float (cell r ''cost'') \<and> is_float (cell r ''task_budget'')"
    by blast
  from shape_columns_returns[OF y ga(2-5), of by_task by_worker] obtain g where
    "shape_columns A p by_task by_worker ga = Inr g" by blast
  then show ?thesis
    by (simp add: summarize_def ts cc[folded f_def] ga(1))
qed






text \<open>
  With the weekly frequency as only key, a week without an entry between the first and
  the last day makes \<open>summarize\<close> fail: \<open>my_agg\<close> reads the first rate of a group without
  rows.
\<close>

lemma ex_gap_costs:
  "compute_costs exact ex_gap_project = Inr
      \<lparr>columns = [''date'', ''task'', ''worker'', ''duration'', ''task_budget'',
         ''rate'', ''cost'', ''cost/task_budget'', ''cost/project_budget''],
        rows =
          [[(''date'', PDate 0), (''task'', PStr ''Inception''),
            (''worker'', PStr ''A''), (''duration'', PFloat (Fin 3)),
            (''task_budget'', PFloat (Fin 2048)),
            (''rate'', PFloat (Fin 128)), (''cost'', PFloat (Fin 384)),
            (''cost/task_budget'', PFloat (Fin (3 / 16))),
            (''cost/project_budget'', PFloat (Fin (3 / 32)))],
           [(''date'', PDate 15), (''task'', PStr ''Solutions''),
            (''worker'', PStr ''B''), (''duration'', PFloat (Fin 2)),
            (''task_budget'', PFloat (Fin 2048)),
            (''rate'', PFloat (Fin 64)), (''cost'', PFloat (Fin 128)),
            (''cost/task_budget'', PFloat (Fin (1 / 16))),
            (''cost/project_budget'', PFloat (Fin (1 / 32)))]],
        cats = [''worker'', ''task'']\<rparr>"
  by (simp add: compute_costs_def merge_def mk_row_def astype_category_def rename_col_def
      set_col_def col_def cell_def series_mul_def series_div_def series_div_scalar_def
      exact_def ex_gap_project_def ex_tasks_def ex_workers_def ex_gap_timesheet_def)

lemma ex_gap_periods: "periods weekly [PDate 0, PDate 15] = [PDate 0, PDate 7, PDate 14]"
  by (simp add: periods_def weekly_def upto_rec1)

lemma ex_gap_weekly: "summarize exact ex_gap_project False False (Some weekly) = Inl IndexError"
proof -
  have t: "timesheet_df ex_gap_project = Some ex_gap_timesheet"
    and b: "budget ex_gap_project = Scalar (PInt 4096)"
    by (simp_all add: ex_gap_project_def)
  show ?thesis
    by (simp add: summarize_def aggregate_def my_agg_def series_sum_def
      groupby_apply_def group_keys_def key_cols_def group_key_def key_levels_def
      t b ex_gap_costs col_def cell_def ex_gap_periods weekly_def exact_simps skipna_def)
qed




section \<open>Copying a project (C10)\<close>

text \<open>
  C10. \<open>copy\<close> fails on every project: it calls \<open>Project()\<close> with no argument, and the
  constructor requires seven, so the call is a TypeError and no copy is returned.
\<close>

theorem copy_always_fails: "copy A p = Inl TypeError"
  by (simp add: copy_def)

end
